theory Spec2Isabelle
  imports Complex_Main
begin

section \<open>The remote store as the handlers see it\<close>

text \<open>
  Every route handler talks to the database through the Supabase client.  An awaited
  query either rejects (the \<^verbatim>\<open>await\<close> throws) or resolves to the pair
  \<^verbatim>\<open>{ data, error }\<close>.  The client is an external collaborator, so each handler
  takes the outcomes of its queries as input.
\<close>

record pg_error =
  message :: string
  code :: string

datatype exn = JsError string | PgThrown pg_error

datatype 'a awaited = Rejects exn | Resolves 'a

datatype 'a pg_result = PgResult (data: "'a option") (error: "pg_error option")

text \<open>JavaScript truthiness of a string: the empty string is falsy.\<close>

definition truthy :: "string \<Rightarrow> bool" where
  "truthy s = (s \<noteq> [])"

text \<open>\<^verbatim>\<open>s || null\<close> on a string.\<close>

definition or_null :: "string \<Rightarrow> string option" where
  "or_null s = (if truthy s then Some s else None)"

section \<open>JavaScript objects and numbers\<close>

text \<open>
  An object literal inherits the members of \<^verbatim>\<open>Object.prototype\<close>.  Indexing it with
  one of these names, when the object has no own property of that name, yields the
  inherited member: a function (for \<^verbatim>\<open>__proto__\<close> the prototype object), which is truthy
  and is neither a string nor an array.
\<close>

definition objectPrototypeKeys :: "string list" where
  "objectPrototypeKeys =
    [''constructor'', ''__defineGetter__'', ''__defineSetter__'', ''hasOwnProperty'',
     ''__lookupGetter__'', ''__lookupSetter__'', ''isPrototypeOf'', ''propertyIsEnumerable'',
     ''toString'', ''valueOf'', ''__proto__'', ''toLocaleString'']"

text \<open>
  A JavaScript number is a double.  The numbers met here come from an integer literal
  of the request body and from subtracting one, so they are \<^verbatim>\<open>NaN\<close>, an infinity or
  an integer-valued double.
\<close>

datatype js_number = NaN | PosInfinity | NegInfinity | Finite int

text \<open>The number of binary digits of a natural number.\<close>

fun bit_length :: "nat \<Rightarrow> nat" where
  "bit_length n = (if n = 0 then 0 else Suc (bit_length (n div 2)))"

declare bit_length.simps [simp del]

text \<open>
  A double has 53 significant bits.  A natural number with more is rounded to the
  nearest number with 53, a tie going to the even one.
\<close>

definition round53 :: "nat \<Rightarrow> nat" where
  "round53 n =
    (if bit_length n \<le> 53 then n
     else
       (let s = bit_length n - 53; q = n div 2 ^ s; r = n mod 2 ^ s
        in (if 2 ^ (s - 1) < r \<or> (r = 2 ^ (s - 1) \<and> odd q) then q + 1 else q) * 2 ^ s))"

text \<open>
  The double nearest to an integer: what \<^verbatim>\<open>JSON.parse\<close> gives for an integer literal
  and what an arithmetic operation gives for an integer result.  From \<open>2 ^ 1024\<close> on the
  rounded magnitude overflows to an infinity.
\<close>

definition to_double :: "int \<Rightarrow> js_number" where
  "to_double i =
    (let m = round53 (nat \<bar>i\<bar>)
     in if 2 ^ 1024 \<le> m then (if i < 0 then NegInfinity else PosInfinity)
        else Finite (if i < 0 then - int m else int m))"

text \<open>\<^verbatim>\<open>x > 1\<close>, \<^verbatim>\<open>x - 1\<close> and \<^verbatim>\<open>Math.max(0, x)\<close>.\<close>

fun greater_than_one :: "js_number \<Rightarrow> bool" where
  "greater_than_one NaN = False"
| "greater_than_one PosInfinity = True"
| "greater_than_one NegInfinity = False"
| "greater_than_one (Finite m) = (1 < m)"

fun minus_one :: "js_number \<Rightarrow> js_number" where
  "minus_one NaN = NaN"
| "minus_one PosInfinity = PosInfinity"
| "minus_one NegInfinity = NegInfinity"
| "minus_one (Finite m) = to_double (m - 1)"

fun Math_max_0 :: "js_number \<Rightarrow> js_number" where
  "Math_max_0 NaN = NaN"
| "Math_max_0 PosInfinity = PosInfinity"
| "Math_max_0 NegInfinity = Finite 0"
| "Math_max_0 (Finite m) = Finite (max 0 m)"

section \<open>Planned visits: \<^verbatim>\<open>src/app/api/planned-visits/route.ts\<close>\<close>

text \<open>
  \<^verbatim>\<open>PlannedVisitFormData\<close>.  A string field that is absent from the posted JSON and
  one that is empty are both falsy, and the handler uses a field only after a
  truthiness test (the validation, or \<^verbatim>\<open>field || fallback\<close>), so both are the empty
  string here.  \<^verbatim>\<open>groupSize\<close> is never validated: it is the integer literal of the body
  (the form sends \<^verbatim>\<open>parseInt\<close> of a select value), or \<open>None\<close> when the body has no such
  field.
\<close>

record PlannedVisitFormData =
  firstName :: string
  lastName :: string
  email :: string
  phone :: string
  eventType :: string
  preferredDate :: string
  preferredTime :: string
  groupSize :: "int option"
  firstTimeVisitor :: bool
  specialNeeds :: string
  howHeardAboutUs :: string
  additionalNotes :: string

record contact_row =
  ct_first_name :: string
  ct_last_name :: string
  ct_email :: string
  ct_phone :: "string option"
  ct_tenant_id :: string
  ct_created_at :: string
  ct_updated_at :: string

text \<open>
  The value of \<^verbatim>\<open>eventName\<close>: a string, or the member of \<^verbatim>\<open>Object.prototype\<close> of the
  given name.
\<close>

datatype event_name_value = EventName string | InheritedMember string

record planned_visit_row =
  contact_id :: "string option"
  event_name :: event_name_value
  event_date :: string
  event_time :: string
  interest_level :: string
  how_heard_about_us :: "string option"
  coming_with_others :: bool
  companions_count :: js_number
  companions_details :: "string option"
  special_needs :: "string option"
  contact_preference :: string
  pv_notes :: "string option"
  pv_status :: string
  pv_created_at :: string
  pv_updated_at :: string

text \<open>The rows the handler hands to \<^verbatim>\<open>insert\<close>, in the order it issues them.\<close>

datatype visit_write = InsertContact contact_row | InsertPlannedVisit planned_visit_row

text \<open>
  What the handler reads from outside: the client factory (\<open>Some e\<close>: it throws
  \<open>e\<close>), the three queries, the clock, \<^verbatim>\<open>new Date(s).toISOString()\<close>, which throws
  a \<^verbatim>\<open>RangeError\<close> on an invalid date (\<open>None\<close>), and the conversion of a number to
  a string inside a template literal.
\<close>

record visits_env =
  visits_createClient :: "exn option"
  contact_search :: "string \<Rightarrow> string pg_result awaited"
  contact_insert :: "contact_row \<Rightarrow> string pg_result awaited"
  visit_insert :: "planned_visit_row \<Rightarrow> string pg_result awaited"
  visits_now :: string
  toISOString :: "string \<Rightarrow> string option"
  number_toString :: "js_number \<Rightarrow> string"

datatype visit_response =
  VisitPlanned string
  | VisitMissingFields
  | VisitFailed exn

fun visit_status :: "visit_response \<Rightarrow> nat" where
  "visit_status (VisitPlanned _) = 200"
| "visit_status VisitMissingFields = 400"
| "visit_status (VisitFailed _) = 500"

text \<open>
  \<^verbatim>\<open>eventTypeMap[formData.eventType] || formData.eventType\<close>: the mapped name for one
  of the five keys of the literal, the inherited member for a name of
  \<^verbatim>\<open>Object.prototype\<close>, and the event type itself otherwise.
\<close>

definition eventTypeMap :: "(string \<times> string) list" where
  "eventTypeMap =
    [(''sunday-service'', ''Sunday Worship Service''),
     (''youth-night'', ''Youth Night''),
     (''bible-study'', ''Bible Study''),
     (''community-outreach'', ''Community Outreach''),
     (''special-event'', ''Special Event'')]"

definition eventName :: "string \<Rightarrow> event_name_value" where
  "eventName t =
    (case map_of eventTypeMap t of
       Some n \<Rightarrow> EventName n
     | None \<Rightarrow> if t \<in> set objectPrototypeKeys then InheritedMember t else EventName t)"

text \<open>Decimal digits of a small natural number, and of a small integer.\<close>

fun digits :: "nat \<Rightarrow> string" where
  "digits n = (if n < 10 then [char_of (48 + n)] else digits (n div 10) @ [char_of (48 + n mod 10)])"

definition show_int :: "int \<Rightarrow> string" where
  "show_int i = (if i < 0 then CHR ''-'' # digits (nat (- i)) else digits (nat i))"

text \<open>
  The number the handler's operators see in \<^verbatim>\<open>formData.groupSize\<close>: \<^verbatim>\<open>NaN\<close> for an
  absent field (\<^verbatim>\<open>undefined\<close>), the parsed double otherwise.
\<close>

definition groupSize_number :: "PlannedVisitFormData \<Rightarrow> js_number" where
  "groupSize_number formData =
    (case groupSize formData of None \<Rightarrow> NaN | Some i \<Rightarrow> to_double i)"

definition planned_visit_of ::
  "visits_env \<Rightarrow> PlannedVisitFormData \<Rightarrow> string option \<Rightarrow> string \<Rightarrow> planned_visit_row" where
  "planned_visit_of env formData contactId isoDate =
    \<lparr> contact_id = contactId,
      event_name = eventName (eventType formData),
      event_date = isoDate,
      event_time = (if truthy (preferredTime formData) then preferredTime formData else ''10:00''),
      interest_level = ''interested'',
      how_heard_about_us = or_null (howHeardAboutUs formData),
      coming_with_others = greater_than_one (groupSize_number formData),
      companions_count = Math_max_0 (minus_one (groupSize_number formData)),
      companions_details =
        (if greater_than_one (groupSize_number formData)
         then Some (''Group of '' @ number_toString env (groupSize_number formData) @ '' people'')
         else None),
      special_needs = or_null (specialNeeds formData),
      contact_preference = ''email'',
      pv_notes = or_null (additionalNotes formData),
      pv_status = ''pending'',
      pv_created_at = visits_now env,
      pv_updated_at = visits_now env \<rparr>"

text \<open>Step 4 of the handler: build the date, insert the visit, read back its id.\<close>

definition create_visit ::
  "visits_env \<Rightarrow> PlannedVisitFormData \<Rightarrow> string option \<Rightarrow> visit_write list
    \<Rightarrow> (exn + visit_response) \<times> visit_write list" where
  "create_visit env formData contactId ws =
    (case toISOString env
            (preferredDate formData @ ''T'' @
              (if truthy (preferredTime formData) then preferredTime formData else ''10:00'')) of
       None \<Rightarrow> (Inl (JsError ''Invalid time value''), ws)
     | Some isoDate \<Rightarrow>
        (let row = planned_visit_of env formData contactId isoDate;
             ws' = ws @ [InsertPlannedVisit row]
         in case visit_insert env row of
              Rejects e \<Rightarrow> (Inl e, ws')
            | Resolves r \<Rightarrow>
               (case error r of
                  Some visitError \<Rightarrow> (Inl (PgThrown visitError), ws')
                | None \<Rightarrow>
                   (case data r of
                      None \<Rightarrow> (Inl (JsError ''Cannot read properties of null''), ws')
                    | Some pid \<Rightarrow> (Inr (VisitPlanned pid), ws')))))"

text \<open>The \<^verbatim>\<open>else\<close> branch of step 1: no contact with this email, create one.\<close>

definition create_contact_then_visit ::
  "visits_env \<Rightarrow> PlannedVisitFormData \<Rightarrow> (exn + visit_response) \<times> visit_write list" where
  "create_contact_then_visit env formData =
    (let row = \<lparr> ct_first_name = firstName formData,
                   ct_last_name = lastName formData,
                   ct_email = email formData,
                   ct_phone = or_null (phone formData),
                   ct_tenant_id = ''a0eebc99-9c0b-4ef8-bb6d-6bb9bd380a11'',
                   ct_created_at = visits_now env,
                   ct_updated_at = visits_now env \<rparr>;
         ws = [InsertContact row]
     in case contact_insert env row of
          Rejects e \<Rightarrow> (Inl e, ws)
        | Resolves r \<Rightarrow>
           (case error r of
              Some contactError \<Rightarrow> (Inl (PgThrown contactError), ws)
            | None \<Rightarrow>
               (case data r of
                  None \<Rightarrow> (Inl (JsError ''Cannot read properties of null''), ws)
                | Some cid \<Rightarrow> create_visit env formData (Some cid) ws)))"

text \<open>Step 1 after the search: reuse the contact found, or create one.\<close>

definition find_or_create ::
  "visits_env \<Rightarrow> PlannedVisitFormData \<Rightarrow> string option \<Rightarrow> (exn + visit_response) \<times> visit_write list" where
  "find_or_create env formData existingContact =
    (case existingContact of
       Some cid \<Rightarrow> create_visit env formData (Some cid) []
     | None \<Rightarrow> create_contact_then_visit env formData)"

text \<open>The body of the \<^verbatim>\<open>try\<close> block.\<close>

definition planned_visits_try ::
  "visits_env \<Rightarrow> PlannedVisitFormData \<Rightarrow> (exn + visit_response) \<times> visit_write list" where
  "planned_visits_try env formData =
    (if \<not> truthy (firstName formData) \<or> \<not> truthy (lastName formData) \<or> \<not> truthy (email formData)
        \<or> \<not> truthy (eventType formData) \<or> \<not> truthy (preferredDate formData)
     then (Inr VisitMissingFields, [])
     else case visits_createClient env of
       Some e \<Rightarrow> (Inl e, [])
     | None \<Rightarrow>
       (case contact_search env (email formData) of
          Rejects e \<Rightarrow> (Inl e, [])
        | Resolves found \<Rightarrow>
           (case error found of
              Some searchError \<Rightarrow>
                if code searchError \<noteq> ''PGRST116'' then (Inl (PgThrown searchError), [])
                else find_or_create env formData (data found)
            | None \<Rightarrow> find_or_create env formData (data found))))"

text \<open>
  The handler, from the parsed form data on: whatever the \<^verbatim>\<open>try\<close> block throws
  becomes the 500 response.
\<close>

definition planned_visits_POST ::
  "visits_env \<Rightarrow> PlannedVisitFormData \<Rightarrow> visit_response \<times> visit_write list" where
  "planned_visits_POST env formData =
    (case planned_visits_try env formData of
       (Inl e, ws) \<Rightarrow> (VisitFailed e, ws)
     | (Inr resp, ws) \<Rightarrow> (resp, ws))"

section \<open>Stripe webhook: \<^verbatim>\<open>src/app/api/webhooks/stripe/route.ts\<close>\<close>

record payment_intent =
  pi_id :: string
  latest_charge :: "string option"
  last_payment_error_message :: "string option"

record invoice =
  inv_id :: string
  inv_subscription :: "string option"
  amount_paid :: int
  currency :: string
  customer :: string

record subscription =
  sub_id :: string
  sub_status :: string
  metadata :: "(string \<times> string) list"

text \<open>\<^verbatim>\<open>Stripe.Event\<close>: the \<^verbatim>\<open>type\<close> tag with the object it carries.\<close>

datatype stripe_event =
  PaymentIntentSucceeded payment_intent
  | PaymentIntentPaymentFailed payment_intent
  | InvoicePaymentSucceeded invoice
  | InvoicePaymentFailed invoice
  | CustomerSubscriptionCreated subscription
  | CustomerSubscriptionUpdated subscription
  | CustomerSubscriptionDeleted subscription
  | Unhandled string

record transaction_update =
  tu_payment_status :: string
  tu_stripe_charge_id :: "string option"
  tu_transacted_at :: "string option"
  tu_notes :: "string option"

record transaction_row =
  tx_contact_id :: "string option"
  tx_amount :: rat
  tx_currency :: string
  tx_category :: string
  tx_payment_method :: string
  tx_payment_status :: string
  tx_transacted_at :: string
  tx_stripe_invoice_id :: string
  tx_stripe_subscription_id :: string
  tx_stripe_customer_id :: string
  tx_is_recurring :: bool
  tx_is_anonymous :: bool
  tx_fund_designation :: string
  tx_frequency :: string

record recurring_update =
  ru_status :: string
  ru_next_payment_date :: "string option"
  ru_cancelled_at :: "string option"

text \<open>
  Every operation the webhook issues against the database, with the key of the
  \<^verbatim>\<open>.eq\<close> filter for the updates.
\<close>

datatype webhook_write =
  UpdateTransaction string transaction_update
  | InsertTransaction transaction_row
  | UpdateRecurringDonation string recurring_update

text \<open>
  The collaborators of the webhook.  \<open>constructEvent\<close> is Stripe's signature check
  (body, \<^verbatim>\<open>stripe-signature\<close> header, endpoint secret): it throws (\<open>Inl\<close>) when
  the signature does not verify.  An awaited write yields the \<^verbatim>\<open>error\<close> of its
  result.  \<open>in_30_days\<close> is the timestamp thirty days after \<^verbatim>\<open>Date.now()\<close>.
\<close>

record webhook_env =
  endpointSecret :: string
  constructEvent :: "string \<Rightarrow> string option \<Rightarrow> string \<Rightarrow> exn + stripe_event"
  webhook_createClient :: "exn option"
  webhook_db :: "webhook_write \<Rightarrow> pg_error option awaited"
  subscriptions_retrieve :: "string \<Rightarrow> subscription awaited"
  webhook_now :: string
  in_30_days :: string

record webhook_request =
  request_text :: "string awaited"
  stripe_signature :: "string option"

datatype webhook_response = Received | SignatureVerificationFailed | WebhookError

fun webhook_status :: "webhook_response \<Rightarrow> nat" where
  "webhook_status Received = 200"
| "webhook_status SignatureVerificationFailed = 400"
| "webhook_status WebhookError = 500"

text \<open>
  One awaited write: the client is created, the operation is issued, then the await
  may throw; a returned \<^verbatim>\<open>error\<close> is only logged.
\<close>

definition webhook_write_op :: "webhook_env \<Rightarrow> webhook_write \<Rightarrow> exn option \<times> webhook_write list" where
  "webhook_write_op env w =
    (case webhook_createClient env of
       Some e \<Rightarrow> (Some e, [])
     | None \<Rightarrow>
        (case webhook_db env w of
           Rejects e \<Rightarrow> (Some e, [w])
         | Resolves _ \<Rightarrow> (None, [w])))"

definition handlePaymentIntentSucceeded :: "webhook_env \<Rightarrow> payment_intent \<Rightarrow> exn option \<times> webhook_write list" where
  "handlePaymentIntentSucceeded env paymentIntent =
    webhook_write_op env
      (UpdateTransaction (pi_id paymentIntent)
        \<lparr> tu_payment_status = ''succeeded'',
          tu_stripe_charge_id = latest_charge paymentIntent,
          tu_transacted_at = Some (webhook_now env),
          tu_notes = None \<rparr>)"

definition handlePaymentIntentFailed :: "webhook_env \<Rightarrow> payment_intent \<Rightarrow> exn option \<times> webhook_write list" where
  "handlePaymentIntentFailed env paymentIntent =
    webhook_write_op env
      (UpdateTransaction (pi_id paymentIntent)
        \<lparr> tu_payment_status = ''failed'',
          tu_stripe_charge_id = None,
          tu_transacted_at = None,
          tu_notes = Some (case last_payment_error_message paymentIntent of
                             Some m \<Rightarrow> if truthy m then m else ''Payment failed''
                           | None \<Rightarrow> ''Payment failed'') \<rparr>)"

text \<open>\<^verbatim>\<open>metadata.key || dflt\<close>.\<close>

definition metadata_or :: "(string \<times> string) list \<Rightarrow> string \<Rightarrow> string \<Rightarrow> string" where
  "metadata_or md k dflt =
    (case map_of md k of Some v \<Rightarrow> if truthy v then v else dflt | None \<Rightarrow> dflt)"

text \<open>\<^verbatim>\<open>toUpperCase\<close> and \<^verbatim>\<open>toLowerCase\<close> on the ASCII letters.\<close>

definition toUpperChar :: "char \<Rightarrow> char" where
  "toUpperChar c =
    (let n = (of_char c :: nat) in if 97 \<le> n \<and> n \<le> 122 then char_of (n - 32) else c)"

definition toLowerChar :: "char \<Rightarrow> char" where
  "toLowerChar c =
    (let n = (of_char c :: nat) in if 65 \<le> n \<and> n \<le> 90 then char_of (n + 32) else c)"

definition toUpperCase :: "string \<Rightarrow> string" where
  "toUpperCase s = map toUpperChar s"

definition toLowerCase :: "string \<Rightarrow> string" where
  "toLowerCase s = map toLowerChar s"

definition handleInvoicePaymentSucceeded :: "webhook_env \<Rightarrow> invoice \<Rightarrow> exn option \<times> webhook_write list" where
  "handleInvoicePaymentSucceeded env invoice =
    (case inv_subscription invoice of
       None \<Rightarrow> (None, [])
     | Some subscriptionId \<Rightarrow>
        if \<not> truthy subscriptionId then (None, [])
        else case webhook_createClient env of
          Some e \<Rightarrow> (Some e, [])
        | None \<Rightarrow>
           (case subscriptions_retrieve env subscriptionId of
              Rejects e \<Rightarrow> (Some e, [])
            | Resolves sub \<Rightarrow>
               webhook_write_op env
                 (InsertTransaction
                   \<lparr> tx_contact_id = or_null (metadata_or (metadata sub) ''contact_id'' []),
                     tx_amount = of_int (amount_paid invoice) / 100,
                     tx_currency = toUpperCase (currency invoice),
                     tx_category = metadata_or (metadata sub) ''fund_designation'' ''General Fund'',
                     tx_payment_method = ''Stripe (Recurring)'',
                     tx_payment_status = ''succeeded'',
                     tx_transacted_at = webhook_now env,
                     tx_stripe_invoice_id = inv_id invoice,
                     tx_stripe_subscription_id = subscriptionId,
                     tx_stripe_customer_id = customer invoice,
                     tx_is_recurring = True,
                     tx_is_anonymous = False,
                     tx_fund_designation = metadata_or (metadata sub) ''fund_designation'' ''General Fund'',
                     tx_frequency = metadata_or (metadata sub) ''frequency'' ''monthly'' \<rparr>)))"

definition handleSubscriptionUpdated :: "webhook_env \<Rightarrow> subscription \<Rightarrow> exn option \<times> webhook_write list" where
  "handleSubscriptionUpdated env sub =
    webhook_write_op env
      (UpdateRecurringDonation (sub_id sub)
        \<lparr> ru_status = sub_status sub,
          ru_next_payment_date = (if sub_status sub = ''active'' then Some (in_30_days env) else None),
          ru_cancelled_at = None \<rparr>)"

definition handleSubscriptionDeleted :: "webhook_env \<Rightarrow> subscription \<Rightarrow> exn option \<times> webhook_write list" where
  "handleSubscriptionDeleted env sub =
    webhook_write_op env
      (UpdateRecurringDonation (sub_id sub)
        \<lparr> ru_status = ''cancelled'',
          ru_next_payment_date = None,
          ru_cancelled_at = Some (webhook_now env) \<rparr>)"

text \<open>The \<^verbatim>\<open>switch (event.type)\<close>.\<close>

fun handle_event :: "webhook_env \<Rightarrow> stripe_event \<Rightarrow> exn option \<times> webhook_write list" where
  "handle_event env (PaymentIntentSucceeded p) = handlePaymentIntentSucceeded env p"
| "handle_event env (PaymentIntentPaymentFailed p) = handlePaymentIntentFailed env p"
| "handle_event env (InvoicePaymentSucceeded i) = handleInvoicePaymentSucceeded env i"
| "handle_event env (InvoicePaymentFailed i) = (None, [])"
| "handle_event env (CustomerSubscriptionCreated s) = (None, [])"
| "handle_event env (CustomerSubscriptionUpdated s) = handleSubscriptionUpdated env s"
| "handle_event env (CustomerSubscriptionDeleted s) = handleSubscriptionDeleted env s"
| "handle_event env (Unhandled t) = (None, [])"

text \<open>
  The handler.  The inner \<^verbatim>\<open>try\<close> around \<open>constructEvent\<close> answers 400; anything
  thrown elsewhere reaches the outer \<^verbatim>\<open>catch\<close> and answers 500.
\<close>

definition stripe_webhook_POST :: "webhook_env \<Rightarrow> webhook_request \<Rightarrow> webhook_response \<times> webhook_write list" where
  "stripe_webhook_POST env request =
    (case request_text request of
       Rejects e \<Rightarrow> (WebhookError, [])
     | Resolves body \<Rightarrow>
        (case constructEvent env body (stripe_signature request) (endpointSecret env) of
           Inl err \<Rightarrow> (SignatureVerificationFailed, [])
         | Inr event \<Rightarrow>
            (case handle_event env event of
               (Some e, ws) \<Rightarrow> (WebhookError, ws)
             | (None, ws) \<Rightarrow> (Received, ws))))"

section \<open>Contact form: \<^verbatim>\<open>src/app/api/contact/route.ts\<close>, \<^verbatim>\<open>POST\<close>\<close>

text \<open>
  The JSON values the two opt-in flags can take; an absent field is \<open>JUndefined\<close>.
\<close>

datatype jsval = JUndefined | JBool bool | JString string | JNumber int

fun js_truthy :: "jsval \<Rightarrow> bool" where
  "js_truthy JUndefined = False"
| "js_truthy (JBool b) = b"
| "js_truthy (JString s) = truthy s"
| "js_truthy (JNumber n) = (n \<noteq> 0)"

text \<open>\<^verbatim>\<open>v === true || v === 'true' || v === 1\<close>.\<close>

definition opted_in :: "jsval \<Rightarrow> bool" where
  "opted_in v = (v = JBool True \<or> v = JString ''true'' \<or> v = JNumber 1)"

text \<open>
  The destructured request body.  The text fields are strings, the empty string
  standing for an absent one (both are falsy).
\<close>

record contact_body =
  name :: string
  contact_email :: string
  contact_phone :: string
  subject :: string
  category :: string
  contact_message :: string
  newsletter :: jsval
  prayer :: jsval

record newsletter_row =
  nl_email :: string
  nl_first_name :: string
  nl_last_name :: string
  nl_subscribed_at :: string
  nl_status :: string
  nl_subscription_source :: string

text \<open>
  The payload for \<^verbatim>\<open>website_messages\<close> and for \<^verbatim>\<open>contact_submissions\<close>; the
  second has no \<^verbatim>\<open>source\<close> column.
\<close>

record message_row =
  msg_id :: string
  msg_name :: string
  msg_email :: string
  msg_phone :: "string option"
  msg_subject :: string
  msg_category :: string
  msg_message :: string
  msg_source :: "string option"
  msg_newsletter_opt_in :: jsval
  msg_submitted_at :: string
  msg_status :: string
  msg_is_prayer_request :: bool

record prayer_row =
  pr_id :: string
  pr_contact_id :: "string option"
  pr_title :: string
  pr_description :: string
  pr_status :: string
  pr_submitted_at :: string
  pr_urgency :: string
  pr_is_confidential :: bool
  pr_source :: string
  pr_source_submission_id :: string

datatype contact_write =
  InsertNewsletterSubscriber newsletter_row
  | InsertWebsiteMessage message_row
  | InsertContactSubmission message_row
  | InsertPrayerRequest prayer_row

text \<open>
  The collaborators: the two calls of \<^verbatim>\<open>crypto.randomUUID()\<close>, the clock and the
  four inserts.  An insert with \<^verbatim>\<open>.select()\<close> resolves to the inserted rows (here
  their ids) or an error.
\<close>

record contact_env =
  submission_uuid :: string
  prayer_uuid :: string
  contact_now :: string
  newsletter_insert :: "newsletter_row \<Rightarrow> string list pg_result awaited"
  website_insert :: "message_row \<Rightarrow> string list pg_result awaited"
  fallback_insert :: "message_row \<Rightarrow> string list pg_result awaited"
  prayer_insert :: "prayer_row \<Rightarrow> string list pg_result awaited"

text \<open>
  The success body; its \<^verbatim>\<open>debug\<close> object only repeats \<^verbatim>\<open>newsletterResult\<close>,
  \<^verbatim>\<open>isPrayerRequest\<close> and the two flags as received, and is left out.
\<close>

record contact_success =
  success :: bool
  response_message :: string
  submission_id :: string
  response_type :: string
  newsletter_subscribed :: bool

datatype contact_response =
  ContactOk contact_success
  | MissingRequiredFields
  | FailedToSubmit
  | InternalServerError

fun contact_status :: "contact_response \<Rightarrow> nat" where
  "contact_status (ContactOk _) = 200"
| "contact_status MissingRequiredFields = 400"
| "contact_status FailedToSubmit = 500"
| "contact_status InternalServerError = 500"

text \<open>
  \<^verbatim>\<open>name.split(' ')[0] || name\<close> and \<^verbatim>\<open>name.split(' ').slice(1).join(' ') || ''\<close>:
  the text before the first space, and the text after it.
\<close>

definition first_name_of :: "string \<Rightarrow> string" where
  "first_name_of n =
    (let w = takeWhile (\<lambda>c. c \<noteq> CHR '' '') n in if truthy w then w else n)"

definition last_name_of :: "string \<Rightarrow> string" where
  "last_name_of n = drop 1 (dropWhile (\<lambda>c. c \<noteq> CHR '' '') n)"

text \<open>
  The newsletter block.  Its own \<^verbatim>\<open>try\<close>/\<^verbatim>\<open>catch\<close> swallows a rejected insert, and
  a returned error is only logged: the result is \<^verbatim>\<open>newsletterResult\<close>, the first
  inserted row or nothing.
\<close>

definition newsletter_step :: "contact_env \<Rightarrow> contact_body \<Rightarrow> string option \<times> contact_write list" where
  "newsletter_step env body =
    (if opted_in (newsletter body) then
       (let newsletterPayload =
              \<lparr> nl_email = contact_email body,
                nl_first_name = first_name_of (name body),
                nl_last_name = last_name_of (name body),
                nl_subscribed_at = contact_now env,
                nl_status = ''active'',
                nl_subscription_source = ''contact_form'' \<rparr>
        in (case newsletter_insert env newsletterPayload of
              Rejects newsletterErr \<Rightarrow> None
            | Resolves r \<Rightarrow>
               (case error r of
                  Some newsletterError \<Rightarrow> None
                | None \<Rightarrow> (case data r of Some (x # _) \<Rightarrow> Some x | _ \<Rightarrow> None)),
            [InsertNewsletterSubscriber newsletterPayload]))
     else (None, []))"

definition isPrayerRequest :: "contact_body \<Rightarrow> bool" where
  "isPrayerRequest body = (opted_in (prayer body) \<or> category body = ''Prayer Request'')"

definition category_of :: "contact_body \<Rightarrow> string" where
  "category_of body =
    (if truthy (category body) then category body
     else if isPrayerRequest body then ''Prayer Request'' else ''General Inquiry'')"

definition websiteMessagePayload :: "contact_env \<Rightarrow> contact_body \<Rightarrow> message_row" where
  "websiteMessagePayload env body =
    \<lparr> msg_id = submission_uuid env,
      msg_name = name body,
      msg_email = contact_email body,
      msg_phone = or_null (contact_phone body),
      msg_subject = subject body,
      msg_category = category_of body,
      msg_message = contact_message body,
      msg_source = Some ''website'',
      msg_newsletter_opt_in = (if js_truthy (newsletter body) then newsletter body else JBool False),
      msg_submitted_at = contact_now env,
      msg_status = ''unread'',
      msg_is_prayer_request = isPrayerRequest body \<rparr>"

definition fallbackPayload :: "contact_env \<Rightarrow> contact_body \<Rightarrow> message_row" where
  "fallbackPayload env body =
    \<lparr> msg_id = submission_uuid env,
      msg_name = name body,
      msg_email = contact_email body,
      msg_phone = or_null (contact_phone body),
      msg_subject = subject body,
      msg_category = category_of body,
      msg_message = contact_message body,
      msg_source = None,
      msg_newsletter_opt_in = (if js_truthy (newsletter body) then newsletter body else JBool False),
      msg_submitted_at = contact_now env,
      msg_status = ''new'',
      msg_is_prayer_request = isPrayerRequest body \<rparr>"

text \<open>
  The main insert with its fallback.  \<open>Inl\<close>: an await threw; \<open>Inr False\<close>: both
  inserts returned an error; \<open>Inr True\<close>: the submission is stored.
\<close>

definition store_message :: "contact_env \<Rightarrow> contact_body \<Rightarrow> (exn + bool) \<times> contact_write list" where
  "store_message env body =
    (case website_insert env (websiteMessagePayload env body) of
       Rejects e \<Rightarrow> (Inl e, [InsertWebsiteMessage (websiteMessagePayload env body)])
     | Resolves r \<Rightarrow>
        (case error r of
           None \<Rightarrow> (Inr True, [InsertWebsiteMessage (websiteMessagePayload env body)])
         | Some websiteMessageError \<Rightarrow>
            (case fallback_insert env (fallbackPayload env body) of
               Rejects e \<Rightarrow>
                 (Inl e, [InsertWebsiteMessage (websiteMessagePayload env body),
                          InsertContactSubmission (fallbackPayload env body)])
             | Resolves fr \<Rightarrow>
                 (Inr (error fr = None),
                  [InsertWebsiteMessage (websiteMessagePayload env body),
                   InsertContactSubmission (fallbackPayload env body)]))))"

text \<open>The prayer block: issued for a prayer request, every failure swallowed.\<close>

definition prayerPayload :: "contact_env \<Rightarrow> contact_body \<Rightarrow> prayer_row" where
  "prayerPayload env body =
    \<lparr> pr_id = prayer_uuid env,
      pr_contact_id = None,
      pr_title = subject body,
      pr_description = contact_message body,
      pr_status = ''new'',
      pr_submitted_at = contact_now env,
      pr_urgency = ''normal'',
      pr_is_confidential = True,
      pr_source = ''website'',
      pr_source_submission_id = submission_uuid env \<rparr>"

definition prayer_step :: "contact_env \<Rightarrow> contact_body \<Rightarrow> contact_write list" where
  "prayer_step env body =
    (if isPrayerRequest body then
       (case prayer_insert env (prayerPayload env body) of
          Rejects prayerErr \<Rightarrow> [InsertPrayerRequest (prayerPayload env body)]
        | Resolves r \<Rightarrow> [InsertPrayerRequest (prayerPayload env body)])
     else [])"

definition success_response :: "contact_env \<Rightarrow> contact_body \<Rightarrow> string option \<Rightarrow> contact_success" where
  "success_response env body newsletterResult =
    \<lparr> success = True,
      response_message =
        (if isPrayerRequest body
         then ''Your prayer request has been submitted. Our pastoral team will keep you in prayer.''
         else ''Your message has been sent successfully! We'll get back to you soon.'')
        @ (if newsletterResult \<noteq> None then '' You've also been subscribed to our newsletter.'' else []),
      submission_id = submission_uuid env,
      response_type = (if isPrayerRequest body then ''prayer_request'' else ''website_message''),
      newsletter_subscribed = (newsletterResult \<noteq> None) \<rparr>"

text \<open>The body of the \<^verbatim>\<open>try\<close> block, from the destructured body on.\<close>

definition contact_try :: "contact_env \<Rightarrow> contact_body \<Rightarrow> (exn + contact_response) \<times> contact_write list" where
  "contact_try env body =
    (if \<not> truthy (name body) \<or> \<not> truthy (contact_email body) \<or> \<not> truthy (subject body)
        \<or> \<not> truthy (contact_message body)
     then (Inr MissingRequiredFields, [])
     else
       (case newsletter_step env body of (newsletterResult, ws1) \<Rightarrow>
         (case store_message env body of
            (Inl e, ws2) \<Rightarrow> (Inl e, ws1 @ ws2)
          | (Inr False, ws2) \<Rightarrow> (Inr FailedToSubmit, ws1 @ ws2)
          | (Inr True, ws2) \<Rightarrow>
              (Inr (ContactOk (success_response env body newsletterResult)),
               ws1 @ ws2 @ prayer_step env body))))"

text \<open>
  The handler: \<^verbatim>\<open>request.json()\<close> may reject, and whatever is thrown inside the
  \<^verbatim>\<open>try\<close> block becomes the 500 \<^verbatim>\<open>Internal server error\<close>.
\<close>

definition contact_POST :: "contact_env \<Rightarrow> contact_body awaited \<Rightarrow> contact_response \<times> contact_write list" where
  "contact_POST env request_json =
    (case request_json of
       Rejects e \<Rightarrow> (InternalServerError, [])
     | Resolves body \<Rightarrow>
        (case contact_try env body of
           (Inl e, ws) \<Rightarrow> (InternalServerError, ws)
         | (Inr resp, ws) \<Rightarrow> (resp, ws)))"

section \<open>Events: the \<^verbatim>\<open>GET\<close> handler of the events route\<close>

record event_row =
  row_id :: string
  row_name :: string
  row_event_date :: string
  row_location :: "string option"
  row_description :: "string option"
  row_capacity :: "int option"

record image_row =
  image_event_id :: string
  image_url :: string
  image_alt_text :: "string option"
  image_sort_order :: int

text \<open>\<^verbatim>\<open>EventData\<close>, the shape the front end consumes.\<close>

record EventData =
  ev_id :: string
  ev_name :: string
  ev_event_date :: string
  ev_location :: string
  ev_description :: string
  ev_capacity :: "int option"
  primary_image :: "image_row option"
  gradient :: string
  ev_type :: string

definition defaultEvents :: "EventData list" where
  "defaultEvents =
    [\<lparr> ev_id = ''default-1'',
       ev_name = ''Sunday Worship Experience'',
       ev_event_date = ''2024-01-28T09:00:00'',
       ev_location = ''Main Sanctuary'',
       ev_description = ''Join us for an inspiring worship experience with contemporary music and biblical teaching.'',
       ev_capacity = Some 200,
       primary_image = None,
       gradient = ''from-blue-800 to-indigo-900'',
       ev_type = ''worship'' \<rparr>,
     \<lparr> ev_id = ''default-2'',
       ev_name = ''Midweek Connection'',
       ev_event_date = ''2024-01-31T19:00:00'',
       ev_location = ''Fellowship Hall'',
       ev_description = ''Dive deeper into God's word through interactive Bible study and fellowship.'',
       ev_capacity = Some 50,
       primary_image = None,
       gradient = ''from-purple-800 to-pink-900'',
       ev_type = ''study'' \<rparr>,
     \<lparr> ev_id = ''default-3'',
       ev_name = ''Youth Ignite Night'',
       ev_event_date = ''2024-02-02T19:00:00'',
       ev_location = ''Youth Center'',
       ev_description = ''High-energy youth service with games, worship, and relevant messages for teens.'',
       ev_capacity = Some 100,
       primary_image = None,
       gradient = ''from-green-800 to-teal-900'',
       ev_type = ''youth'' \<rparr>,
     \<lparr> ev_id = ''default-4'',
       ev_name = ''Community Outreach'',
       ev_event_date = ''2024-02-05T10:00:00'',
       ev_location = ''Community Center'',
       ev_description = ''Join us as we serve our community with love and compassion through various outreach programs.'',
       ev_capacity = Some 150,
       primary_image = None,
       gradient = ''from-orange-800 to-red-900'',
       ev_type = ''outreach'' \<rparr>]"

record events_response =
  events :: "EventData list"
  events_source :: string
  events_message :: string

text \<open>
  The collaborators of the events handler: the two environment variables, the client
  factory of \<^verbatim>\<open>@/lib/supabase\<close> (\<open>Some e\<close>: it throws), the clock that gives
  \<^verbatim>\<open>today\<close>, the events query (a function of \<^verbatim>\<open>today\<close>) and the images query (a
  function of the event ids).
\<close>

record events_env =
  NEXT_PUBLIC_SUPABASE_URL :: "string option"
  NEXT_PUBLIC_SUPABASE_ANON_KEY :: "string option"
  createServerSupabaseClient :: "exn option"
  today :: string
  events_query :: "string \<Rightarrow> event_row list pg_result awaited"
  images_query :: "string list \<Rightarrow> image_row list pg_result awaited"

text \<open>\<^verbatim>\<open>!process.env.X\<close>: the variable is unset or empty.\<close>

definition unset :: "string option \<Rightarrow> bool" where
  "unset v = (case v of None \<Rightarrow> True | Some s \<Rightarrow> \<not> truthy s)"

definition gradients :: "string list" where
  "gradients =
    [''from-blue-800 to-indigo-900'',
     ''from-purple-800 to-pink-900'',
     ''from-green-800 to-teal-900'',
     ''from-orange-800 to-red-900'',
     ''from-teal-800 to-cyan-900'',
     ''from-rose-800 to-pink-900'']"

text \<open>
  \<^verbatim>\<open>id.split('').reduce((a, b) => a + b.charCodeAt(0), 0)\<close>, then the index
  \<^verbatim>\<open>hash % gradients.length\<close>, always in range.
\<close>

definition getEventGradient :: "string \<Rightarrow> string \<Rightarrow> string" where
  "getEventGradient nm ident =
    (let hash = foldl (\<lambda>a b. a + of_char b) (0::nat) ident
     in gradients ! (hash mod length gradients))"

fun startsWith :: "string \<Rightarrow> string \<Rightarrow> bool" where
  "startsWith s [] = True"
| "startsWith [] (c # t) = False"
| "startsWith (a # s) (c # t) = (a = c \<and> startsWith s t)"

text \<open>\<^verbatim>\<open>s.includes(t)\<close>.\<close>

fun includes_str :: "string \<Rightarrow> string \<Rightarrow> bool" where
  "includes_str [] t = (t = [])"
| "includes_str (a # s) t = (startsWith (a # s) t \<or> includes_str s t)"

definition getEventType :: "string \<Rightarrow> string option \<Rightarrow> string" where
  "getEventType nm description =
    (let content = toLowerCase (nm @ '' '' @ (case description of Some d \<Rightarrow> d | None \<Rightarrow> []))
     in if includes_str content ''worship'' \<or> includes_str content ''service'' \<or> includes_str content ''sunday'' then ''worship''
        else if includes_str content ''youth'' \<or> includes_str content ''teen'' \<or> includes_str content ''young'' then ''youth''
        else if includes_str content ''study'' \<or> includes_str content ''bible'' \<or> includes_str content ''prayer'' then ''study''
        else if includes_str content ''outreach'' \<or> includes_str content ''community'' \<or> includes_str content ''serve'' then ''outreach''
        else if includes_str content ''conference'' \<or> includes_str content ''seminar'' \<or> includes_str content ''retreat'' then ''conference''
        else ''event'')"

text \<open>
  The \<^verbatim>\<open>reduce\<close> that groups the images by \<^verbatim>\<open>event_id\<close>.  The accumulator starts
  as \<^verbatim>\<open>{}\<close>; its own properties are kept in insertion order.  \<open>add_to_group\<close> is the
  step on the own properties: a new array for a new key, \<^verbatim>\<open>push\<close> on the array of a
  known one.
\<close>

fun add_to_group :: "(string \<times> image_row list) list \<Rightarrow> image_row \<Rightarrow> (string \<times> image_row list) list" where
  "add_to_group [] img = [(image_event_id img, [img])]"
| "add_to_group ((k, imgs) # acc) img =
    (if k = image_event_id img then (k, imgs @ [img]) # acc else (k, imgs) # add_to_group acc img)"

text \<open>
  One step of the \<^verbatim>\<open>reduce\<close>.  For an \<^verbatim>\<open>event_id\<close> that is not an own property
  but names a member of \<^verbatim>\<open>Object.prototype\<close>, \<^verbatim>\<open>acc[img.event_id]\<close> is that member:
  truthy, so no array is created, and its \<^verbatim>\<open>push\<close> is not a function, so the call
  throws a \<^verbatim>\<open>TypeError\<close>.
\<close>

definition push_image ::
  "(string \<times> image_row list) list \<Rightarrow> image_row \<Rightarrow> exn + (string \<times> image_row list) list" where
  "push_image acc img =
    (if image_event_id img \<in> set (map fst acc) then Inr (add_to_group acc img)
     else if image_event_id img \<in> set objectPrototypeKeys
     then Inl (JsError ''acc[img.event_id].push is not a function'')
     else Inr (add_to_group acc img))"

fun reduce_images ::
  "(string \<times> image_row list) list \<Rightarrow> image_row list \<Rightarrow> exn + (string \<times> image_row list) list" where
  "reduce_images acc [] = Inr acc"
| "reduce_images acc (img # images) =
    (case push_image acc img of
       Inl e \<Rightarrow> Inl e
     | Inr acc' \<Rightarrow> reduce_images acc' images)"

definition imagesByEvent :: "image_row list \<Rightarrow> exn + (string \<times> image_row list) list" where
  "imagesByEvent images = reduce_images [] images"

text \<open>
  \<^verbatim>\<open>imageMap\<close>: empty unless the images query gave rows (its \<^verbatim>\<open>error\<close> is never
  read); otherwise each event id is set to the first image of its group.
\<close>

definition imageMap :: "image_row list option \<Rightarrow> exn + (string \<times> image_row option) list" where
  "imageMap images =
    (case images of
       None \<Rightarrow> Inr []
     | Some imgs \<Rightarrow>
        if imgs = [] then Inr []
        else
          (case imagesByEvent imgs of
             Inl e \<Rightarrow> Inl e
           | Inr groups \<Rightarrow>
               Inr (map (\<lambda>(eventId, group).
                          (eventId, case group of [] \<Rightarrow> None | first # _ \<Rightarrow> Some first))
                      groups)))"

text \<open>\<^verbatim>\<open>imageMap.get(id) || null\<close>.\<close>

definition imageMap_get :: "(string \<times> image_row option) list \<Rightarrow> string \<Rightarrow> image_row option" where
  "imageMap_get m ident = (case map_of m ident of Some (Some img) \<Rightarrow> Some img | _ \<Rightarrow> None)"

text \<open>\<^verbatim>\<open>v || dflt\<close> on a nullable string column.\<close>

definition or_default :: "string option \<Rightarrow> string \<Rightarrow> string" where
  "or_default v dflt = (case v of Some s \<Rightarrow> if truthy s then s else dflt | None \<Rightarrow> dflt)"

definition transformEvent :: "(string \<times> image_row option) list \<Rightarrow> event_row \<Rightarrow> EventData" where
  "transformEvent m event =
    \<lparr> ev_id = row_id event,
      ev_name = row_name event,
      ev_event_date = row_event_date event,
      ev_location = or_default (row_location event) ''Location TBD'',
      ev_description = or_default (row_description event) ''Join us for this special event.'',
      ev_capacity = row_capacity event,
      primary_image = imageMap_get m (row_id event),
      gradient = getEventGradient (row_name event) (row_id event),
      ev_type = getEventType (row_name event) (row_description event) \<rparr>"

definition default_events_response :: "string \<Rightarrow> events_response" where
  "default_events_response msg =
    \<lparr> events = defaultEvents, events_source = ''default'', events_message = msg \<rparr>"

text \<open>The body of the outer \<^verbatim>\<open>try\<close> block; \<open>Inl\<close> is an exception that leaves it.\<close>

definition events_try :: "events_env \<Rightarrow> exn + events_response" where
  "events_try env =
    (if unset (NEXT_PUBLIC_SUPABASE_URL env) \<or> unset (NEXT_PUBLIC_SUPABASE_ANON_KEY env)
     then Inr (default_events_response ''Using default events - Supabase not configured'')
     else case createServerSupabaseClient env of
       Some e \<Rightarrow> Inr (default_events_response ''Using default events - Supabase client failed'')
     | None \<Rightarrow>
        (case events_query env (today env) of
           Rejects e \<Rightarrow> Inl e
         | Resolves r \<Rightarrow>
            (case error r of
               Some eventsError \<Rightarrow>
                 Inr (default_events_response
                       (''Using default events - Database error: '' @ message eventsError))
             | None \<Rightarrow>
                (case data r of
                   None \<Rightarrow> Inr (default_events_response ''Using default events - No upcoming events found'')
                 | Some rows \<Rightarrow>
                    if length rows = 0
                    then Inr (default_events_response ''Using default events - No upcoming events found'')
                    else
                      (case images_query env (map row_id rows) of
                         Rejects e \<Rightarrow> Inl e
                       | Resolves ir \<Rightarrow>
                          (case imageMap (data ir) of
                             Inl e \<Rightarrow> Inl e
                           | Inr m \<Rightarrow>
                              (let transformedEvents = map (transformEvent m) rows
                               in Inr \<lparr> events = transformedEvents,
                                        events_source = ''database'',
                                        events_message =
                                          ''Loaded '' @ digits (length transformedEvents)
                                            @ '' upcoming events from database'' \<rparr>)))))))"

definition events_GET :: "events_env \<Rightarrow> events_response" where
  "events_GET env =
    (case events_try env of
       Inl e \<Rightarrow> default_events_response ''Using default events - Unexpected error''
     | Inr response \<Rightarrow> response)"

section \<open>Tenant settings: \<^verbatim>\<open>src/app/api/tenant-settings/route.ts\<close>\<close>

record tenant_settings =
  settings_id :: string
  settings_name :: string
  time_zone :: string
  primary_color :: string
  secondary_color :: string
  settings_description :: string
  settings_created_at :: string
  settings_updated_at :: string

text \<open>
  The literal \<^verbatim>\<open>defaultSettings\<close> that three branches of the handler build, each with
  two fresh readings of the clock.
\<close>

definition defaultSettings :: "string \<Rightarrow> string \<Rightarrow> tenant_settings" where
  "defaultSettings created updated =
    \<lparr> settings_id = ''default'',
      settings_name = ''DOCM Church'',
      time_zone = ''America/New_York'',
      primary_color = ''#1A202C'',
      secondary_color = ''#F6E05E'',
      settings_description = ''Demonstration of Christ Ministries'',
      settings_created_at = created,
      settings_updated_at = updated \<rparr>"

record tenant_envelope =
  tenant_success :: bool
  tenant_data :: tenant_settings
  tenant_message :: string
  tenant_source :: string
  tenant_error :: "string option"

text \<open>
  The handler answers either the envelope (status 200) or an error body
  \<^verbatim>\<open>{ error, success? }\<close> with status 500.
\<close>

datatype tenant_response =
  TenantEnvelope tenant_envelope
  | TenantFailure string "bool option"

fun tenant_status :: "tenant_response \<Rightarrow> nat" where
  "tenant_status (TenantEnvelope _) = 200"
| "tenant_status (TenantFailure _ _) = 500"

text \<open>
  The collaborators: four environment variables (\<open>tenant_SUPABASE_URL\<close> and
  \<open>tenant_SUPABASE_ANON_KEY\<close> are \<^verbatim>\<open>NEXT_PUBLIC_SUPABASE_URL\<close> and
  \<^verbatim>\<open>NEXT_PUBLIC_SUPABASE_ANON_KEY\<close> as this handler reads them), \<^verbatim>\<open>createClient\<close> of
  supabase-js (url and key; \<open>Some e\<close>: it throws), the query as seen with a given key,
  and the clock readings for \<^verbatim>\<open>created_at\<close> and \<^verbatim>\<open>updated_at\<close>.
\<close>

record tenant_env =
  tenant_SUPABASE_URL :: "string option"
  SUPABASE_SERVICE_ROLE_KEY :: "string option"
  NEXT_PUBLIC_SUPABASE_SERVICE_ROLE_KEY :: "string option"
  tenant_SUPABASE_ANON_KEY :: "string option"
  createClient :: "string \<Rightarrow> string \<Rightarrow> exn option"
  tenant_settings_query :: "string \<Rightarrow> tenant_settings list pg_result awaited"
  now_created :: string
  now_updated :: string

text \<open>The string behind a variable that is set.\<close>

definition env_value :: "string option \<Rightarrow> string" where
  "env_value v = (case v of Some s \<Rightarrow> s | None \<Rightarrow> [])"

text \<open>\<^verbatim>\<open>a || b\<close> on two environment variables.\<close>

definition env_or :: "string option \<Rightarrow> string option \<Rightarrow> string option" where
  "env_or a b = (if unset a then b else a)"

text \<open>\<^verbatim>\<open>error instanceof Error ? error.message : 'Unknown error'\<close>.\<close>

fun error_message_of :: "exn \<Rightarrow> string" where
  "error_message_of (JsError m) = m"
| "error_message_of (PgThrown e) = ''Unknown error''"

text \<open>\<^verbatim>\<open>error.message.includes('row-level security') || error.code === '42501'\<close>.\<close>

definition is_policy_rejection :: "pg_error \<Rightarrow> bool" where
  "is_policy_rejection err =
    (includes_str (message err) ''row-level security'' \<or> code err = ''42501'')"

text \<open>The key the client is created with: the service-role key if there is one.\<close>

definition tenant_key :: "tenant_env \<Rightarrow> string" where
  "tenant_key env =
    (let supabaseServiceKey = env_or (SUPABASE_SERVICE_ROLE_KEY env) (NEXT_PUBLIC_SUPABASE_SERVICE_ROLE_KEY env)
     in if unset supabaseServiceKey then env_value (tenant_SUPABASE_ANON_KEY env)
        else env_value supabaseServiceKey)"

definition default_tenant_envelope :: "tenant_env \<Rightarrow> string \<Rightarrow> string option \<Rightarrow> tenant_envelope" where
  "default_tenant_envelope env msg err =
    \<lparr> tenant_success = True,
      tenant_data = defaultSettings (now_created env) (now_updated env),
      tenant_message = msg,
      tenant_source = ''default'',
      tenant_error = err \<rparr>"

definition tenant_try :: "tenant_env \<Rightarrow> exn + tenant_response" where
  "tenant_try env =
    (if unset (tenant_SUPABASE_URL env) \<or> unset (tenant_SUPABASE_ANON_KEY env)
     then Inr (TenantFailure ''Database configuration missing'' (Some False))
     else
       (case createClient env (env_value (tenant_SUPABASE_URL env)) (tenant_key env) of
          Some e \<Rightarrow> Inl e
        | None \<Rightarrow>
           (case tenant_settings_query env (tenant_key env) of
              Rejects e \<Rightarrow> Inl e
            | Resolves r \<Rightarrow>
               (case error r of
                  Some err \<Rightarrow>
                    if is_policy_rejection err
                    then Inr (TenantEnvelope
                           (default_tenant_envelope env
                             ''Using default tenant settings - database not accessible'' None))
                    else Inr (TenantFailure (message err) None)
                | None \<Rightarrow>
                   (case data r of
                      Some (first # _) \<Rightarrow>
                        Inr (TenantEnvelope
                           \<lparr> tenant_success = True,
                             tenant_data = first,
                             tenant_message = ''Tenant settings found'',
                             tenant_source = ''database'',
                             tenant_error = None \<rparr>)
                    | _ \<Rightarrow>
                        Inr (TenantEnvelope
                           (default_tenant_envelope env
                             ''No tenant settings found, using defaults'' None)))))))"

definition tenant_settings_GET :: "tenant_env \<Rightarrow> tenant_response" where
  "tenant_settings_GET env =
    (case tenant_try env of
       Inl e \<Rightarrow>
         TenantEnvelope
           (default_tenant_envelope env ''Error occurred, using default settings''
             (Some (error_message_of e)))
     | Inr response \<Rightarrow> response)"

section \<open>Giving page: \<^verbatim>\<open>src/app/api/giving-page/route.ts\<close>\<close>

text \<open>
  The page content is JSON; a section's \<^verbatim>\<open>props\<close> column is an arbitrary object
  spread over the default one.  An object is the list of its own properties in the order
  in which they enumerate.
\<close>

datatype json = JNull | JStr string | JArr "json list" | JObj "(string \<times> json) list"

type_synonym json_object = "(string \<times> json) list"

record fund_designation =
  fund_id :: string
  fund_name :: string
  fund_description :: string

record giving_content =
  hero :: json_object
  giving_methods :: json_object
  fund_designations :: "fund_designation list"
  impact :: json_object
  giving_source :: string

definition default_hero :: json_object where
  "default_hero =
    [(''first_line_text'', JStr ''Give''),
     (''heading'', JStr ''Your generosity changes lives.''),
     (''subheading'', JStr ''Through your faithful giving, we're able to serve our community, support missions, and further God's kingdom. Every gift, large or small, makes a meaningful difference.''),
     (''background_image'', JNull),
     (''cta_primary'', JStr ''Make a Donation''),
     (''cta_secondary'', JStr ''Learn More'')]"

definition default_giving_methods :: json_object where
  "default_giving_methods =
    [(''section_title'', JStr ''Ways to Give''),
     (''section_heading'', JStr ''Multiple Giving Options''),
     (''section_description'', JStr ''Choose the giving method that works best for you. All donations are secure and tax-deductible.''),
     (''methods'', JArr
       [JObj [(''id'', JStr ''online''),
              (''title'', JStr ''Online Giving''),
              (''description'', JStr ''Secure, convenient giving through our website''),
              (''icon'', JStr ''credit-card''),
              (''features'', JArr [JStr ''One-time or recurring'', JStr ''Instant receipts'', JStr ''Multiple payment methods''])],
        JObj [(''id'', JStr ''text''),
              (''title'', JStr ''Text to Give''),
              (''description'', JStr ''Quick giving via text message''),
              (''icon'', JStr ''phone''),
              (''features'', JArr [JStr ''Text amount to donate'', JStr ''Set up recurring gifts'', JStr ''Secure and simple''])],
        JObj [(''id'', JStr ''check''),
              (''title'', JStr ''Check or Cash''),
              (''description'', JStr ''Traditional giving methods welcomed''),
              (''icon'', JStr ''banknote''),
              (''features'', JArr [JStr ''Drop in offering'', JStr ''Mail to church'', JStr ''In-person giving''])]])]"

definition default_fund_designations :: "fund_designation list" where
  "default_fund_designations =
    [\<lparr> fund_id = ''general'', fund_name = ''General Fund'', fund_description = ''Supports overall church operations and ministries'' \<rparr>,
     \<lparr> fund_id = ''building'', fund_name = ''Building Fund'', fund_description = ''Facility improvements and expansion projects'' \<rparr>,
     \<lparr> fund_id = ''missions'', fund_name = ''Missions'', fund_description = ''Supporting missionaries and outreach efforts'' \<rparr>,
     \<lparr> fund_id = ''youth'', fund_name = ''Youth Ministry'', fund_description = ''Programs and activities for young people'' \<rparr>,
     \<lparr> fund_id = ''children'', fund_name = ''Children's Ministry'', fund_description = ''Kids programs and Sunday school'' \<rparr>,
     \<lparr> fund_id = ''outreach'', fund_name = ''Community Outreach'', fund_description = ''Local community service and support'' \<rparr>]"

definition default_impact :: json_object where
  "default_impact =
    [(''section_title'', JStr ''Your Impact''),
     (''section_heading'', JStr ''See How Your Gifts Make a Difference''),
     (''section_description'', JStr ''Your faithful giving enables us to transform lives and serve our community in countless ways.''),
     (''stats'', JArr
       [JObj [(''label'', JStr ''Families Served''), (''value'', JStr ''500+''),
              (''description'', JStr ''Through our food pantry and assistance programs'')],
        JObj [(''label'', JStr ''Youth Impacted''), (''value'', JStr ''150+''),
              (''description'', JStr ''Participating in youth programs and activities'')],
        JObj [(''label'', JStr ''Missionaries Supported''), (''value'', JStr ''12''),
              (''description'', JStr ''Local and international mission work'')],
        JObj [(''label'', JStr ''Community Events''), (''value'', JStr ''25+''),
              (''description'', JStr ''Annual outreach and service events'')]])]"

text \<open>\<^verbatim>\<open>{ ...defaultGivingPageContent, source }\<close>.\<close>

definition defaultGivingPageContent :: "string \<Rightarrow> giving_content" where
  "defaultGivingPageContent src =
    \<lparr> hero = default_hero,
      giving_methods = default_giving_methods,
      fund_designations = default_fund_designations,
      impact = default_impact,
      giving_source = src \<rparr>"

record page_row =
  page_id :: string
  page_slug :: string
  page_title :: string

record section_row =
  section_id :: string
  section_type :: string
  section_order :: int
  props :: "json_object option"

record fund_row =
  category_id :: string
  category_name :: string
  category_description :: "string option"
  is_active :: bool

text \<open>
  The collaborators: the client factory and the three queries (the page by slug with
  \<^verbatim>\<open>.single()\<close>, the sections of a page id, the active payment categories).
\<close>

record giving_env =
  giving_createClient :: "exn option"
  page_query :: "page_row pg_result awaited"
  sections_query :: "string \<Rightarrow> section_row list pg_result awaited"
  funds_query :: "fund_row list pg_result awaited"

text \<open>
  An array index: the canonical decimal numeral of a number below \<open>2 ^ 32 - 1\<close>.  The own
  keys of an object enumerate with the array indices first, in ascending order, and the
  other keys after them in the order of their creation.
\<close>

definition numeral_value :: "string \<Rightarrow> nat" where
  "numeral_value s = foldl (\<lambda>a c. 10 * a + (of_char c - 48)) 0 s"

definition array_index :: "string \<Rightarrow> bool" where
  "array_index s =
    (s \<noteq> [] \<and> list_all (\<lambda>c. 48 \<le> (of_char c :: nat) \<and> (of_char c :: nat) \<le> 57) s
     \<and> (s = ''0'' \<or> hd s \<noteq> CHR ''0'') \<and> numeral_value s < 2 ^ 32 - 1)"

definition key_order :: "json_object \<Rightarrow> json_object" where
  "key_order obj =
    sort_key (\<lambda>(k, v). numeral_value k) (filter (\<lambda>(k, v). array_index k) obj)
      @ filter (\<lambda>(k, v). \<not> array_index k) obj"

text \<open>
  Object spread \<^verbatim>\<open>{ ...a, ...b }\<close>: the properties of \<open>a\<close> are created, then those of
  \<open>b\<close> override them or are created after them.
\<close>

fun set_key :: "string \<Rightarrow> json \<Rightarrow> json_object \<Rightarrow> json_object" where
  "set_key k v [] = [(k, v)]"
| "set_key k v ((k', v') # obj) = (if k' = k then (k, v) # obj else (k', v') # set_key k v obj)"

definition spread :: "json_object \<Rightarrow> json_object \<Rightarrow> json_object" where
  "spread a b = key_order (foldl (\<lambda>acc (k, v). set_key k v acc) a b)"

text \<open>The body of the \<^verbatim>\<open>forEach\<close> over the sections: the \<^verbatim>\<open>switch\<close> on the type.\<close>

definition apply_section :: "giving_content \<Rightarrow> section_row \<Rightarrow> giving_content" where
  "apply_section structuredContent section =
    (case props section of
       None \<Rightarrow> structuredContent
     | Some p \<Rightarrow>
        if section_type section = ''hero''
        then structuredContent\<lparr> hero := spread (hero structuredContent) p \<rparr>
        else if section_type section = ''giving_methods''
        then structuredContent\<lparr> giving_methods := spread (giving_methods structuredContent) p \<rparr>
        else if section_type section = ''impact''
        then structuredContent\<lparr> impact := spread (impact structuredContent) p \<rparr>
        else structuredContent)"

definition fund_of :: "fund_row \<Rightarrow> fund_designation" where
  "fund_of fund =
    \<lparr> fund_id = category_id fund,
      fund_name = category_name fund,
      fund_description =
        or_default (category_description fund) (''Support our '' @ toLowerCase (category_name fund)) \<rparr>"

text \<open>
  \<^verbatim>\<open>fundDesignations\<close>: the defaults unless the categories query returned rows without
  an error.
\<close>

definition fundDesignations :: "fund_row list pg_result \<Rightarrow> fund_designation list" where
  "fundDesignations r =
    (case (error r, data r) of
       (None, Some fundData) \<Rightarrow>
         if length fundData > 0 then map fund_of fundData else default_fund_designations
     | _ \<Rightarrow> default_fund_designations)"

definition giving_try :: "giving_env \<Rightarrow> exn + giving_content" where
  "giving_try env =
    (case giving_createClient env of
       Some e \<Rightarrow> Inl e
     | None \<Rightarrow>
        (case page_query env of
           Rejects e \<Rightarrow> Inl e
         | Resolves pr \<Rightarrow>
            (case (error pr, data pr) of
               (None, Some pageData) \<Rightarrow>
                 (case sections_query env (page_id pageData) of
                    Rejects e \<Rightarrow> Inl e
                  | Resolves sr \<Rightarrow>
                     (case error sr of
                        Some sectionsError \<Rightarrow> Inr (defaultGivingPageContent ''default'')
                      | None \<Rightarrow>
                         (case funds_query env of
                            Rejects e \<Rightarrow> Inl e
                          | Resolves fr \<Rightarrow>
                             (let structuredContent =
                                    \<lparr> hero = default_hero,
                                      giving_methods = default_giving_methods,
                                      fund_designations = fundDesignations fr,
                                      impact = default_impact,
                                      giving_source = ''database'' \<rparr>
                              in Inr (foldl apply_section structuredContent
                                       (case data sr of None \<Rightarrow> [] | Some sectionsData \<Rightarrow> sectionsData))))))
             | _ \<Rightarrow> Inr (defaultGivingPageContent ''default''))))"

definition giving_page_GET :: "giving_env \<Rightarrow> giving_content" where
  "giving_page_GET env =
    (case giving_try env of
       Inl e \<Rightarrow> defaultGivingPageContent ''error_fallback''
     | Inr response \<Rightarrow> response)"

section \<open>Vocabulary of the properties\<close>

text \<open>The planned-visit rows among the inserts of one request.\<close>

fun visit_rows :: "visit_write list \<Rightarrow> planned_visit_row list" where
  "visit_rows [] = []"
| "visit_rows (InsertContact c # ws) = visit_rows ws"
| "visit_rows (InsertPlannedVisit row # ws) = row # visit_rows ws"

text \<open>The rows of one contact request by table.\<close>

fun website_rows :: "contact_write list \<Rightarrow> message_row list" where
  "website_rows [] = []"
| "website_rows (InsertWebsiteMessage row # ws) = row # website_rows ws"
| "website_rows (_ # ws) = website_rows ws"

fun fallback_rows :: "contact_write list \<Rightarrow> message_row list" where
  "fallback_rows [] = []"
| "fallback_rows (InsertContactSubmission row # ws) = row # fallback_rows ws"
| "fallback_rows (_ # ws) = fallback_rows ws"

text \<open>The two ways an awaited insert can fail: it resolves with an error, or it throws.\<close>

definition returned_error :: "'a pg_result awaited \<Rightarrow> bool" where
  "returned_error a = (case a of Resolves r \<Rightarrow> error r \<noteq> None | Rejects e \<Rightarrow> False)"

definition threw :: "'a awaited \<Rightarrow> bool" where
  "threw a = (case a of Resolves r \<Rightarrow> False | Rejects e \<Rightarrow> True)"

text \<open>All four required fields of a contact submission are present.\<close>

definition required_present :: "contact_body \<Rightarrow> bool" where
  "required_present body =
    (truthy (name body) \<and> truthy (contact_email body) \<and> truthy (subject body)
     \<and> truthy (contact_message body))"

text \<open>
  The events handler got past its configuration check and its client creation.
\<close>

definition events_store_reachable :: "events_env \<Rightarrow> bool" where
  "events_store_reachable env =
    (\<not> unset (NEXT_PUBLIC_SUPABASE_URL env) \<and> \<not> unset (NEXT_PUBLIC_SUPABASE_ANON_KEY env)
     \<and> createServerSupabaseClient env = None)"

text \<open>The same for the tenant-settings handler.\<close>

definition tenant_store_reachable :: "tenant_env \<Rightarrow> bool" where
  "tenant_store_reachable env =
    (\<not> unset (tenant_SUPABASE_URL env) \<and> \<not> unset (tenant_SUPABASE_ANON_KEY env)
     \<and> createClient env (env_value (tenant_SUPABASE_URL env)) (tenant_key env) = None)"

text \<open>The keys of a JSON object.\<close>

definition keys :: "json_object \<Rightarrow> string set" where
  "keys obj = set (map fst obj)"

text \<open>A tenant-settings answer with its two timestamps blanked.\<close>

fun without_timestamps :: "tenant_response \<Rightarrow> tenant_response" where
  "without_timestamps (TenantEnvelope r) =
    TenantEnvelope (r\<lparr> tenant_data := (tenant_data r)\<lparr> settings_created_at := [], settings_updated_at := [] \<rparr> \<rparr>)"
| "without_timestamps (TenantFailure m s) = TenantFailure m s"

text \<open>An awaited query resolved with an error that is not a policy rejection.\<close>

definition other_query_error :: "'a pg_result awaited \<Rightarrow> bool" where
  "other_query_error a =
    (case a of
       Resolves r \<Rightarrow> (case error r of Some err \<Rightarrow> \<not> is_policy_rejection err | None \<Rightarrow> False)
     | Rejects e \<Rightarrow> False)"

text \<open>An image row whose \<^verbatim>\<open>event_id\<close> names a member of \<^verbatim>\<open>Object.prototype\<close>.\<close>

definition inherited_id :: "image_row \<Rightarrow> bool" where
  "inherited_id img = (image_event_id img \<in> set objectPrototypeKeys)"

section \<open>Concrete requests and stores\<close>

text \<open>
  The conversion of a number to a string, for the numbers below \<open>10 ^ 21\<close> in magnitude
  that print as plain digits.
\<close>

fun small_number_toString :: "js_number \<Rightarrow> string" where
  "small_number_toString NaN = ''NaN''"
| "small_number_toString PosInfinity = ''Infinity''"
| "small_number_toString NegInfinity = ''-Infinity''"
| "small_number_toString (Finite m) = show_int m"

text \<open>
  A planned visit for a group of three, against a store where every query succeeds; the
  same form without a group size, and with one of \<open>10 ^ 21\<close>.
\<close>

definition visits_env_ok :: visits_env where
  "visits_env_ok =
    \<lparr> visits_createClient = None,
      contact_search = (\<lambda>_. Resolves (PgResult None (Some \<lparr> message = ''no rows'', code = ''PGRST116'' \<rparr>))),
      contact_insert = (\<lambda>_. Resolves (PgResult (Some ''contact-1'') None)),
      visit_insert = (\<lambda>_. Resolves (PgResult (Some ''visit-1'') None)),
      visits_now = ''2024-03-01T12:00:00.000Z'',
      toISOString = (\<lambda>s. Some (s @ '':00.000Z'')),
      number_toString = small_number_toString \<rparr>"

definition visit_of_three :: PlannedVisitFormData where
  "visit_of_three =
    \<lparr> firstName = ''Ann'', lastName = ''Lee'', email = ''ann@example.org'', phone = [],
      eventType = ''youth-night'', preferredDate = ''2024-03-03'', preferredTime = [],
      groupSize = Some 3, firstTimeVisitor = True, specialNeeds = [], howHeardAboutUs = [],
      additionalNotes = [] \<rparr>"

definition visit_without_size :: PlannedVisitFormData where
  "visit_without_size = visit_of_three\<lparr> groupSize := None \<rparr>"

definition visit_of_sextillion :: PlannedVisitFormData where
  "visit_of_sextillion = visit_of_three\<lparr> groupSize := Some (10 ^ 21) \<rparr>"

text \<open>
  A webhook endpoint whose signature check accepts only the header \<^verbatim>\<open>t=1,v1=good\<close>,
  and a store where every write succeeds.
\<close>

definition webhook_env_ok :: webhook_env where
  "webhook_env_ok =
    \<lparr> endpointSecret = ''whsec_test'',
      constructEvent = (\<lambda>body signature secret.
         if signature = Some ''t=1,v1=good'' \<and> secret = ''whsec_test''
         then Inr (PaymentIntentSucceeded
                \<lparr> pi_id = ''pi_1'', latest_charge = Some ''ch_1'', last_payment_error_message = None \<rparr>)
         else Inl (JsError ''No signatures found matching the expected signature for payload'')),
      webhook_createClient = None,
      webhook_db = (\<lambda>w. Resolves None),
      subscriptions_retrieve = (\<lambda>s. Rejects (JsError ''No such subscription'')),
      webhook_now = ''2024-03-01T12:00:00.000Z'',
      in_30_days = ''2024-03-31T12:00:00.000Z'' \<rparr>"

definition forged_request :: webhook_request where
  "forged_request = \<lparr> request_text = Resolves ''{}'', stripe_signature = Some ''t=1,v1=forged'' \<rparr>"

definition signed_request :: webhook_request where
  "signed_request = \<lparr> request_text = Resolves ''{}'', stripe_signature = Some ''t=1,v1=good'' \<rparr>"

text \<open>
  A complete contact submission, a store where every insert succeeds, and the error
  of a missing table.
\<close>

definition contact_body_ok :: contact_body where
  "contact_body_ok =
    \<lparr> name = ''Ann Lee'', contact_email = ''ann@example.org'', contact_phone = [],
      subject = ''Hello'', category = [], contact_message = ''A question'',
      newsletter = JBool True, prayer = JUndefined \<rparr>"

definition contact_env_ok :: contact_env where
  "contact_env_ok =
    \<lparr> submission_uuid = ''11111111-1111-4111-8111-111111111111'',
      prayer_uuid = ''22222222-2222-4222-8222-222222222222'',
      contact_now = ''2024-03-01T12:00:00.000Z'',
      newsletter_insert = (\<lambda>row. Resolves (PgResult (Some [''n1'']) None)),
      website_insert = (\<lambda>row. Resolves (PgResult (Some [msg_id row]) None)),
      fallback_insert = (\<lambda>row. Resolves (PgResult (Some [msg_id row]) None)),
      prayer_insert = (\<lambda>row. Resolves (PgResult (Some [pr_id row]) None)) \<rparr>"

definition no_such_table :: pg_error where
  "no_such_table = \<lparr> message = ''relation does not exist'', code = ''42P01'' \<rparr>"

text \<open>
  The same store without a \<^verbatim>\<open>website_messages\<close> table, and one whose first insert
  throws.
\<close>

definition contact_env_no_table :: contact_env where
  "contact_env_no_table =
    contact_env_ok\<lparr> website_insert := (\<lambda>row. Resolves (PgResult None (Some no_such_table))) \<rparr>"

definition contact_env_throws :: contact_env where
  "contact_env_throws =
    contact_env_ok\<lparr> website_insert := (\<lambda>row. Rejects (JsError ''fetch failed'')) \<rparr>"

text \<open>
  An events store with two upcoming events and one image, and the ways it can fail.
\<close>

definition easter_row :: event_row where
  "easter_row =
    \<lparr> row_id = ''e1'', row_name = ''Easter Service'', row_event_date = ''2024-03-31T09:00:00'',
      row_location = Some ''Chapel'', row_description = None, row_capacity = Some 80 \<rparr>"

definition picnic_row :: event_row where
  "picnic_row =
    \<lparr> row_id = ''e2'', row_name = ''Picnic'', row_event_date = ''2024-04-06T12:00:00'',
      row_location = None, row_description = Some [], row_capacity = None \<rparr>"

definition easter_image :: image_row where
  "easter_image =
    \<lparr> image_event_id = ''e1'', image_url = ''https://cdn.example.org/e1.jpg'',
      image_alt_text = None, image_sort_order = 0 \<rparr>"

definition events_env_ok :: events_env where
  "events_env_ok =
    \<lparr> NEXT_PUBLIC_SUPABASE_URL = Some ''https://docm.supabase.co'',
      NEXT_PUBLIC_SUPABASE_ANON_KEY = Some ''anon-key'',
      createServerSupabaseClient = None,
      today = ''2024-03-01T12:00:00.000Z'',
      events_query = (\<lambda>t. Resolves (PgResult (Some [easter_row, picnic_row]) None)),
      images_query = (\<lambda>ids. Resolves (PgResult (Some [easter_image]) None)) \<rparr>"

definition rls_denied :: pg_error where
  "rls_denied =
    \<lparr> message = ''new row violates row-level security policy'', code = ''42501'' \<rparr>"

definition connection_refused :: pg_error where
  "connection_refused = \<lparr> message = ''TypeError: fetch failed'', code = [] \<rparr>"

definition events_env_unconfigured :: events_env where
  "events_env_unconfigured = events_env_ok\<lparr> NEXT_PUBLIC_SUPABASE_URL := None \<rparr>"

definition events_env_throws :: events_env where
  "events_env_throws = events_env_ok\<lparr> events_query := (\<lambda>t. Rejects (JsError ''fetch failed'')) \<rparr>"

definition events_env_denied :: events_env where
  "events_env_denied = events_env_ok\<lparr> events_query := (\<lambda>t. Resolves (PgResult None (Some rls_denied))) \<rparr>"

definition events_env_empty :: events_env where
  "events_env_empty = events_env_ok\<lparr> events_query := (\<lambda>t. Resolves (PgResult (Some []) None)) \<rparr>"

definition events_env_no_images :: events_env where
  "events_env_no_images =
    events_env_ok\<lparr> images_query := (\<lambda>ids. Resolves (PgResult None (Some no_such_table))) \<rparr>"

text \<open>A tenant-settings store with one row, and the ways it can fail.\<close>

definition church_settings :: tenant_settings where
  "church_settings =
    \<lparr> settings_id = ''t1'', settings_name = ''Grace Church'', time_zone = ''Europe/London'',
      primary_color = ''#000000'', secondary_color = ''#FFFFFF'',
      settings_description = ''A church'', settings_created_at = ''2023-01-01T00:00:00.000Z'',
      settings_updated_at = ''2023-06-01T00:00:00.000Z'' \<rparr>"

definition tenant_env_ok :: tenant_env where
  "tenant_env_ok =
    \<lparr> tenant_SUPABASE_URL = Some ''https://docm.supabase.co'',
      SUPABASE_SERVICE_ROLE_KEY = None,
      NEXT_PUBLIC_SUPABASE_SERVICE_ROLE_KEY = None,
      tenant_SUPABASE_ANON_KEY = Some ''anon-key'',
      createClient = (\<lambda>url key. None),
      tenant_settings_query = (\<lambda>key. Resolves (PgResult (Some [church_settings]) None)),
      now_created = ''2024-03-01T12:00:00.000Z'',
      now_updated = ''2024-03-01T12:00:00.001Z'' \<rparr>"

definition tenant_env_unconfigured :: tenant_env where
  "tenant_env_unconfigured = tenant_env_ok\<lparr> tenant_SUPABASE_URL := None \<rparr>"

definition tenant_env_down :: tenant_env where
  "tenant_env_down =
    tenant_env_ok\<lparr> tenant_settings_query := (\<lambda>key. Resolves (PgResult None (Some connection_refused))) \<rparr>"

definition tenant_env_denied :: tenant_env where
  "tenant_env_denied =
    tenant_env_ok\<lparr> tenant_settings_query := (\<lambda>key. Resolves (PgResult None (Some rls_denied))) \<rparr>"

definition tenant_env_empty :: tenant_env where
  "tenant_env_empty =
    tenant_env_ok\<lparr> tenant_settings_query := (\<lambda>key. Resolves (PgResult (Some []) None)) \<rparr>"

definition tenant_env_throws :: tenant_env where
  "tenant_env_throws =
    tenant_env_ok\<lparr> tenant_settings_query := (\<lambda>key. Rejects (JsError ''fetch failed'')) \<rparr>"

text \<open>A giving-page store with a published page, one hero section and one fund.\<close>

definition giving_page_row :: page_row where
  "giving_page_row = \<lparr> page_id = ''p1'', page_slug = ''giving'', page_title = ''Give'' \<rparr>"

definition hero_section :: section_row where
  "hero_section =
    \<lparr> section_id = ''s1'', section_type = ''hero'', section_order = 0,
      props = Some [(''heading'', JStr ''Give generously''), (''badge'', JStr ''New'')] \<rparr>"

definition missions_fund :: fund_row where
  "missions_fund =
    \<lparr> category_id = ''f1'', category_name = ''World Missions'', category_description = None,
      is_active = True \<rparr>"

definition giving_env_ok :: giving_env where
  "giving_env_ok =
    \<lparr> giving_createClient = None,
      page_query = Resolves (PgResult (Some giving_page_row) None),
      sections_query = (\<lambda>pid. Resolves (PgResult (Some [hero_section]) None)),
      funds_query = Resolves (PgResult (Some [missions_fund]) None) \<rparr>"

definition no_rows :: pg_error where
  "no_rows = \<lparr> message = ''JSON object requested, multiple (or no) rows returned'', code = ''PGRST116'' \<rparr>"

definition giving_env_no_page :: giving_env where
  "giving_env_no_page = giving_env_ok\<lparr> page_query := Resolves (PgResult None (Some no_rows)) \<rparr>"

definition giving_env_throws :: giving_env where
  "giving_env_throws = giving_env_ok\<lparr> page_query := Rejects (JsError ''fetch failed'') \<rparr>"

text \<open>
  An events store whose one upcoming event has the id \<^verbatim>\<open>constructor\<close>, with one image.
\<close>

definition constructor_row :: event_row where
  "constructor_row =
    \<lparr> row_id = ''constructor'', row_name = ''Builders Night'',
      row_event_date = ''2024-04-12T19:00:00'', row_location = Some ''Workshop'',
      row_description = None, row_capacity = Some 30 \<rparr>"

definition constructor_image :: image_row where
  "constructor_image =
    \<lparr> image_event_id = ''constructor'', image_url = ''https://cdn.example.org/builders.jpg'',
      image_alt_text = None, image_sort_order = 0 \<rparr>"

definition events_env_constructor :: events_env where
  "events_env_constructor =
    events_env_ok\<lparr> events_query := (\<lambda>t. Resolves (PgResult (Some [constructor_row]) None)),
                    images_query := (\<lambda>ids. Resolves (PgResult (Some [constructor_image]) None)) \<rparr>"

section \<open>Properties of the planned-visit handler\<close>

subsection \<open>Rounding to a double\<close>

lemma bit_length_le: "bit_length n \<le> k \<longleftrightarrow> n < 2 ^ k"
proof (induction k arbitrary: n)
  case 0
  show ?case by (subst bit_length.simps) simp
next
  case (Suc k)
  have "bit_length n \<le> Suc k \<longleftrightarrow> n = 0 \<or> bit_length (n div 2) \<le> k"
    by (subst bit_length.simps) simp
  also have "\<dots> \<longleftrightarrow> n = 0 \<or> n div 2 < 2 ^ k"
    by (simp add: Suc.IH)
  also have "\<dots> \<longleftrightarrow> n < 2 ^ Suc k"
    by auto
  finally show ?case .
qed

lemma round53_exact:
  assumes "n \<le> 2 ^ 53"
  shows "round53 n = n"
proof (cases "n < 2 ^ 53")
  case True
  then show ?thesis by (simp add: round53_def bit_length_le)
next
  case False
  with assms have n: "n = 2 ^ 53" by simp
  have "bit_length n \<le> 54" "\<not> bit_length n \<le> 53"
    by (simp_all add: bit_length_le n)
  then have "bit_length n = 54" by simp
  then show ?thesis by (simp add: round53_def Let_def n)
qed

lemma round53_large:
  assumes "\<not> bit_length n \<le> 53"
  shows "2 \<le> round53 n"
proof -
  define s where "s = bit_length n - 53"
  have s: "1 \<le> s" using assms by (simp add: s_def)
  have "\<not> bit_length n \<le> s + 52" using assms by (simp add: s_def)
  then have "2 ^ (s + 52) \<le> n" by (simp add: bit_length_le)
  moreover have "(2::nat) ^ s \<le> 2 ^ (s + 52)" by simp
  ultimately have "2 ^ s \<le> n" by (rule order_trans [rotated])
  then have q: "1 \<le> n div 2 ^ s"
    by (simp add: div_greater_zero_iff Suc_le_eq)
  have "(2::nat) ^ 1 \<le> 2 ^ s" using s by (intro power_increasing) simp_all
  then have "2 \<le> 1 * (2::nat) ^ s" by simp
  also have "\<dots> \<le> (n div 2 ^ s) * 2 ^ s" using q by (intro mult_le_mono1)
  also have "\<dots> \<le> round53 n"
    using assms by (simp add: round53_def Let_def s_def)
  finally show ?thesis .
qed

lemma to_double_exact:
  assumes "\<bar>i\<bar> \<le> 2 ^ 53"
  shows "to_double i = Finite i"
proof -
  have "nat \<bar>i\<bar> \<le> 2 ^ 53" using assms by (simp add: nat_le_iff)
  then have r: "round53 (nat \<bar>i\<bar>) = nat \<bar>i\<bar>" by (rule round53_exact)
  have "nat \<bar>i\<bar> < 2 ^ 1024"
    using \<open>nat \<bar>i\<bar> \<le> 2 ^ 53\<close> by (rule le_less_trans) simp
  then show ?thesis by (simp add: to_double_def r Let_def)
qed

lemma greater_than_one_to_double: "greater_than_one (to_double i) \<longleftrightarrow> 1 < i"
proof (cases "\<bar>i\<bar> \<le> 2 ^ 53")
  case True
  then show ?thesis by (simp add: to_double_exact)
next
  case False
  then have big: "\<not> bit_length (nat \<bar>i\<bar>) \<le> 53"
    by (simp add: bit_length_le nat_less_iff)
  show ?thesis
  proof (cases "i < 0")
    case True
    then show ?thesis by (simp add: to_double_def Let_def)
  next
    case False
    with \<open>\<not> \<bar>i\<bar> \<le> 2 ^ 53\<close> have "1 < i" by simp
    with round53_large [OF big] False show ?thesis
      by (simp add: to_double_def Let_def)
  qed
qed

lemma Math_max_0_nonpositive:
  assumes "i \<le> 0"
  shows "Math_max_0 (to_double i) = Finite 0"
proof (cases "i = 0")
  case True
  then show ?thesis by (simp add: to_double_exact)
next
  case False
  with assms have "i < 0" by simp
  then show ?thesis by (simp add: to_double_def Let_def)
qed

lemma minus_one_small:
  assumes "\<not> 1 < i"
  shows "Math_max_0 (minus_one (to_double i)) = Finite 0"
proof (cases "0 \<le> i")
  case True
  with assms have "to_double i = Finite i" by (intro to_double_exact) simp
  with assms show ?thesis by (simp add: Math_max_0_nonpositive)
next
  case False
  then have "to_double i = NegInfinity \<or> (\<exists>m. to_double i = Finite (- int m))"
    by (simp add: to_double_def Let_def)
  then show ?thesis by (auto simp: Math_max_0_nonpositive)
qed

lemma Math_max_0_number:
  "Math_max_0 (minus_one (to_double i)) = PosInfinity
   \<or> (\<exists>c. 0 \<le> c \<and> Math_max_0 (minus_one (to_double i)) = Finite c)"
proof -
  have a: "Math_max_0 (to_double j) = PosInfinity
     \<or> (\<exists>c. 0 \<le> c \<and> Math_max_0 (to_double j) = Finite c)" for j
    by (simp add: to_double_def Let_def)
  show ?thesis
    by (cases "to_double i") (simp_all add: a, simp add: to_double_def Let_def split: if_splits)
qed

lemma companions_exact:
  assumes "\<bar>g\<bar> \<le> 2 ^ 53"
  shows "Math_max_0 (minus_one (to_double g)) = Finite (max 0 (g - 1))"
proof (cases "1 < g")
  case True
  with assms have "\<bar>g - 1\<bar> \<le> 2 ^ 53" by simp
  then show ?thesis by (simp add: to_double_exact [OF assms] to_double_exact)
next
  case False
  then show ?thesis by (simp add: minus_one_small)
qed

subsection \<open>The rows of an accepted submission\<close>

lemma visit_rows_append: "visit_rows (ws @ ws') = visit_rows ws @ visit_rows ws'"
  by (induction ws rule: visit_rows.induct) simp_all

lemma create_visit_accepted:
  assumes "fst (create_visit env formData c ws) = Inr (VisitPlanned pid)"
  shows "\<exists>i. visit_rows (snd (create_visit env formData c ws))
           = visit_rows ws @ [planned_visit_of env formData c i]"
proof (cases "toISOString env (preferredDate formData @ ''T'' @
        (if truthy (preferredTime formData) then preferredTime formData else ''10:00''))")
  case None
  with assms show ?thesis by (simp add: create_visit_def)
next
  case (Some i)
  with assms show ?thesis
    by (auto simp: create_visit_def Let_def visit_rows_append
        split: option.splits awaited.splits)
qed

lemma create_contact_accepted:
  assumes "fst (create_contact_then_visit env formData) = Inr (VisitPlanned pid)"
  shows "\<exists>c i. visit_rows (snd (create_contact_then_visit env formData))
           = [planned_visit_of env formData c i]"
proof -
  let ?row = "\<lparr> ct_first_name = firstName formData,
                   ct_last_name = lastName formData,
                   ct_email = email formData,
                   ct_phone = or_null (phone formData),
                   ct_tenant_id = ''a0eebc99-9c0b-4ef8-bb6d-6bb9bd380a11'',
                   ct_created_at = visits_now env,
                   ct_updated_at = visits_now env \<rparr>"
  from assms obtain cid where
    step: "create_contact_then_visit env formData
             = create_visit env formData (Some cid) [InsertContact ?row]"
    by (auto simp: create_contact_then_visit_def Let_def split: option.splits awaited.splits)
  with assms create_visit_accepted [of env formData "Some cid" "[InsertContact ?row]" pid]
  show ?thesis by auto
qed

lemma find_or_create_accepted:
  assumes "fst (find_or_create env formData existing) = Inr (VisitPlanned pid)"
  shows "\<exists>c i. visit_rows (snd (find_or_create env formData existing))
           = [planned_visit_of env formData c i]"
proof (cases existing)
  case None
  with assms show ?thesis
    using create_contact_accepted [of env formData pid] by (simp add: find_or_create_def)
next
  case (Some cid)
  with assms show ?thesis
    using create_visit_accepted [of env formData "Some cid" "[]" pid]
    by (auto simp: find_or_create_def)
qed

lemma planned_visits_try_accepted:
  assumes "fst (planned_visits_try env formData) = Inr (VisitPlanned pid)"
  shows "\<exists>c i. visit_rows (snd (planned_visits_try env formData))
           = [planned_visit_of env formData c i]"
  using assms
  by (auto simp: planned_visits_try_def split: if_splits option.splits awaited.splits
      dest!: find_or_create_accepted)

lemma planned_visits_POST_try:
  "planned_visits_POST env formData = (VisitPlanned pid, ws) \<Longrightarrow>
   planned_visits_try env formData = (Inr (VisitPlanned pid), ws)"
  by (auto simp: planned_visits_POST_def split: prod.splits sum.splits)

text \<open>
  C10, as the handler has it.  The handler never validates \<^verbatim>\<open>groupSize\<close>.  For every
  accepted planned-visit submission that carries an integer group size \<open>g\<close>, the handler
  hands exactly one row to the \<^verbatim>\<open>planned_visits\<close> insert; that row has
  \<open>coming_with_others = (g > 1)\<close>, its \<open>companions_count\<close> is a number that is never
  negative and is 0 whenever \<open>coming_with_others\<close> is false, and
  \<open>companions_count = max 0 (g - 1)\<close> as long as \<open>g\<close> is at most \<open>2 ^ 53\<close> in magnitude,
  where the subtraction of doubles is exact.
\<close>

theorem planned_visit_companions:
  assumes "planned_visits_POST env formData = (VisitPlanned pid, ws)"
    and "groupSize formData = Some g"
  shows "\<exists>row. visit_rows ws = [row] \<and>
           coming_with_others row = (g > 1) \<and>
           (companions_count row = PosInfinity
              \<or> (\<exists>c. 0 \<le> c \<and> companions_count row = Finite c)) \<and>
           (\<not> coming_with_others row \<longrightarrow> companions_count row = Finite 0) \<and>
           (\<bar>g\<bar> \<le> 2 ^ 53 \<longrightarrow> companions_count row = Finite (max 0 (g - 1)))"
proof -
  from assms(1) have "planned_visits_try env formData = (Inr (VisitPlanned pid), ws)"
    by (rule planned_visits_POST_try)
  then obtain c i where rows: "visit_rows ws = [planned_visit_of env formData c i]"
    using planned_visits_try_accepted [of env formData pid] by auto
  let ?row = "planned_visit_of env formData c i"
  have n: "groupSize_number formData = to_double g"
    using assms(2) by (simp add: groupSize_number_def)
  have coming: "coming_with_others ?row = (g > 1)"
    by (simp add: planned_visit_of_def n greater_than_one_to_double)
  have count: "companions_count ?row = Math_max_0 (minus_one (to_double g))"
    by (simp add: planned_visit_of_def n)
  have number: "companions_count ?row = PosInfinity
      \<or> (\<exists>c. 0 \<le> c \<and> companions_count ?row = Finite c)"
    unfolding count by (rule Math_max_0_number)
  have alone: "\<not> coming_with_others ?row \<longrightarrow> companions_count ?row = Finite 0"
    unfolding count coming by (simp add: minus_one_small)
  have exact: "\<bar>g\<bar> \<le> 2 ^ 53 \<longrightarrow> companions_count ?row = Finite (max 0 (g - 1))"
    unfolding count by (simp add: companions_exact)
  show ?thesis
    using rows coming number alone exact by blast
qed

theorem planned_visit_companions_witness:
  "fst (planned_visits_POST visits_env_ok visit_of_three) = VisitPlanned ''visit-1''
   \<and> groupSize visit_of_three = Some 3
   \<and> map coming_with_others (visit_rows (snd (planned_visits_POST visits_env_ok visit_of_three))) = [True]
   \<and> map companions_count (visit_rows (snd (planned_visits_POST visits_env_ok visit_of_three)))
       = [Finite 2]"
proof -
  have accepted: "fst (planned_visits_POST visits_env_ok visit_of_three) = VisitPlanned ''visit-1''"
    by (simp add: planned_visits_POST_def planned_visits_try_def find_or_create_def
      create_contact_then_visit_def create_visit_def visits_env_ok_def visit_of_three_def
      truthy_def Let_def)
  then have run: "planned_visits_POST visits_env_ok visit_of_three
      = (VisitPlanned ''visit-1'', snd (planned_visits_POST visits_env_ok visit_of_three))"
    by (metis prod.collapse)
  have g: "groupSize visit_of_three = Some 3"
    by (simp add: visit_of_three_def)
  have small: "\<bar>3 :: int\<bar> \<le> 2 ^ 53"
    by simp
  show ?thesis
    using planned_visit_companions [OF run g] accepted g small by auto
qed

text \<open>
  C10 as stated speaks of every accepted submission.  A body without \<^verbatim>\<open>groupSize\<close>
  is accepted: \<^verbatim>\<open>undefined > 1\<close> is false and \<^verbatim>\<open>Math.max(0, undefined - 1)\<close> is
  \<^verbatim>\<open>NaN\<close>, so \<open>coming_with_others\<close> is false while \<open>companions_count\<close> is not 0.  For
  a group size of \<open>10 ^ 21\<close> the subtraction of doubles rounds back to \<open>10 ^ 21\<close>, which
  is not \<open>max 0 (g - 1)\<close>.
\<close>

theorem absent_group_size_counterexample:
  "fst (planned_visits_POST visits_env_ok visit_without_size) = VisitPlanned ''visit-1''
   \<and> map coming_with_others
         (visit_rows (snd (planned_visits_POST visits_env_ok visit_without_size))) = [False]
   \<and> map companions_count
         (visit_rows (snd (planned_visits_POST visits_env_ok visit_without_size))) = [NaN]
   \<and> fst (planned_visits_POST visits_env_ok visit_of_sextillion) = VisitPlanned ''visit-1''
   \<and> map companions_count
         (visit_rows (snd (planned_visits_POST visits_env_ok visit_of_sextillion)))
       = [Finite (10 ^ 21)]"
proof -
  have run: "planned_visits_POST visits_env_ok (visit_of_three\<lparr> groupSize := s \<rparr>)
      = (VisitPlanned ''visit-1'',
         [InsertContact
            \<lparr> ct_first_name = ''Ann'', ct_last_name = ''Lee'', ct_email = ''ann@example.org'',
              ct_phone = None, ct_tenant_id = ''a0eebc99-9c0b-4ef8-bb6d-6bb9bd380a11'',
              ct_created_at = ''2024-03-01T12:00:00.000Z'',
              ct_updated_at = ''2024-03-01T12:00:00.000Z'' \<rparr>,
          InsertPlannedVisit
            (planned_visit_of visits_env_ok (visit_of_three\<lparr> groupSize := s \<rparr>)
               (Some ''contact-1'') ''2024-03-03T10:00:00.000Z'')])" for s
    by (simp add: planned_visits_POST_def planned_visits_try_def find_or_create_def
      create_contact_then_visit_def create_visit_def visits_env_ok_def visit_of_three_def
      truthy_def or_null_def Let_def)
  have absent: "groupSize_number (visit_of_three\<lparr> groupSize := None \<rparr>) = NaN"
    by (simp add: groupSize_number_def)
  have "to_double (10 ^ 21) = Finite (10 ^ 21)"
    by (simp add: to_double_def round53_def bit_length.simps Let_def)
  moreover have "to_double (10 ^ 21 - 1) = Finite (10 ^ 21)"
    by (simp add: to_double_def round53_def bit_length.simps Let_def)
  ultimately have big: "groupSize_number (visit_of_three\<lparr> groupSize := Some (10 ^ 21) \<rparr>)
        = Finite (10 ^ 21)"
      "Math_max_0 (minus_one (Finite (10 ^ 21))) = Finite (10 ^ 21)"
    by (simp_all add: groupSize_number_def)
  show ?thesis
    using absent big
    by (simp add: visit_without_size_def visit_of_sextillion_def run planned_visit_of_def)
qed


section \<open>Properties of the Stripe webhook\<close>

text \<open>
  C8.  For every webhook request whose signature fails verification against the
  endpoint secret (\<open>constructEvent\<close> throws), the handler answers with status 400 and
  issues no database operation: no \<^verbatim>\<open>transactions\<close> or \<^verbatim>\<open>recurring_donations\<close> row
  is inserted or updated.
\<close>

theorem bad_signature_no_write:
  assumes "request_text request = Resolves body"
    and "constructEvent env body (stripe_signature request) (endpointSecret env) = Inl err"
  shows "stripe_webhook_POST env request = (SignatureVerificationFailed, [])
         \<and> webhook_status (fst (stripe_webhook_POST env request)) = 400"
  using assms by (simp add: stripe_webhook_POST_def)

theorem bad_signature_no_write_witness:
  "stripe_webhook_POST webhook_env_ok forged_request = (SignatureVerificationFailed, [])
   \<and> webhook_status (fst (stripe_webhook_POST webhook_env_ok forged_request)) = 400
   \<and> length (snd (stripe_webhook_POST webhook_env_ok signed_request)) = 1"
proof -
  have t: "request_text forged_request = Resolves ''{}''"
    by (simp add: forged_request_def)
  have c: "constructEvent webhook_env_ok ''{}'' (stripe_signature forged_request)
             (endpointSecret webhook_env_ok)
           = Inl (JsError ''No signatures found matching the expected signature for payload'')"
    by (simp add: webhook_env_ok_def forged_request_def)
  have s: "length (snd (stripe_webhook_POST webhook_env_ok signed_request)) = 1"
    by (simp add: stripe_webhook_POST_def webhook_env_ok_def signed_request_def
        handlePaymentIntentSucceeded_def webhook_write_op_def)
  show ?thesis
    using bad_signature_no_write [OF t c] s by simp
qed

section \<open>Properties of the contact form\<close>

lemma store_message_result:
  "isl (fst (store_message env body)) \<longleftrightarrow>
     threw (website_insert env (websiteMessagePayload env body))
     \<or> returned_error (website_insert env (websiteMessagePayload env body))
        \<and> threw (fallback_insert env (fallbackPayload env body))"
  "fst (store_message env body) = Inr False \<longleftrightarrow>
     returned_error (website_insert env (websiteMessagePayload env body))
     \<and> returned_error (fallback_insert env (fallbackPayload env body))"
  by (auto simp: store_message_def threw_def returned_error_def
      split: awaited.splits option.splits)

lemma website_rows_append: "website_rows (ws @ ws') = website_rows ws @ website_rows ws'"
  by (induction ws rule: website_rows.induct) simp_all

lemma fallback_rows_append: "fallback_rows (ws @ ws') = fallback_rows ws @ fallback_rows ws'"
  by (induction ws rule: fallback_rows.induct) simp_all

lemma newsletter_step_rows:
  "website_rows (snd (newsletter_step env body)) = []"
  "fallback_rows (snd (newsletter_step env body)) = []"
  by (simp_all add: newsletter_step_def Let_def)

lemma prayer_step_rows:
  "website_rows (prayer_step env body) = []"
  "fallback_rows (prayer_step env body) = []"
  by (simp_all add: prayer_step_def split: awaited.splits)

lemma store_message_rows:
  "website_rows (snd (store_message env body)) = [websiteMessagePayload env body]"
  "fallback_rows (snd (store_message env body)) =
     (if returned_error (website_insert env (websiteMessagePayload env body))
      then [fallbackPayload env body] else [])"
  by (auto simp: store_message_def returned_error_def split: awaited.splits option.splits)


lemma contact_try_eq:
  assumes "required_present body"
  shows "contact_try env body =
    ((case fst (store_message env body) of
        Inl e \<Rightarrow> Inl e
      | Inr stored \<Rightarrow>
          if stored
          then Inr (ContactOk (success_response env body (fst (newsletter_step env body))))
          else Inr FailedToSubmit),
     snd (newsletter_step env body) @ snd (store_message env body)
       @ (if fst (store_message env body) = Inr True then prayer_step env body else []))"
  using assms
  by (cases "newsletter_step env body"; cases "store_message env body")
     (auto simp: contact_try_def required_present_def split: sum.splits bool.splits)

lemma contact_try_rows:
  assumes "required_present body"
  shows "website_rows (snd (contact_try env body)) = [websiteMessagePayload env body]"
    and "fallback_rows (snd (contact_try env body)) =
     (if returned_error (website_insert env (websiteMessagePayload env body))
      then [fallbackPayload env body] else [])"
  by (simp_all add: contact_try_eq [OF assms] website_rows_append fallback_rows_append
      newsletter_step_rows prayer_step_rows store_message_rows)

lemma contact_POST_eq:
  "contact_POST env (Resolves body) =
    ((case fst (contact_try env body) of Inl e \<Rightarrow> InternalServerError | Inr resp \<Rightarrow> resp),
     snd (contact_try env body))"
  by (cases "contact_try env body") (simp add: contact_POST_def split: sum.splits)

lemma contact_POST_response:
  assumes "required_present body"
  shows "fst (contact_POST env (Resolves body)) =
    (if threw (website_insert env (websiteMessagePayload env body))
        \<or> returned_error (website_insert env (websiteMessagePayload env body))
           \<and> threw (fallback_insert env (fallbackPayload env body))
     then InternalServerError
     else if returned_error (website_insert env (websiteMessagePayload env body))
        \<and> returned_error (fallback_insert env (fallbackPayload env body))
     then FailedToSubmit
     else ContactOk (success_response env body (fst (newsletter_step env body))))"
proof (cases "fst (store_message env body)")
  case (Inl e)
  then show ?thesis
    using store_message_result [of env body]
    by (simp add: contact_POST_eq contact_try_eq [OF assms])
next
  case (Inr stored)
  then show ?thesis
    using store_message_result [of env body]
    by (cases stored) (auto simp: contact_POST_eq contact_try_eq [OF assms])
qed

text \<open>
  C9, as the handler has it.  For every contact submission with the four required
  fields present, the handler attempts the \<^verbatim>\<open>website_messages\<close> insert exactly once and
  attempts the \<^verbatim>\<open>contact_submissions\<close> insert exactly when the first one returned an
  error, with the same generated submission id.  It answers 500
  \<^verbatim>\<open>Failed to submit contact form\<close> exactly when both inserts returned an error, and 500
  \<^verbatim>\<open>Internal server error\<close> exactly when the await of one of the two inserts threw (after
  a thrown first insert there is no fallback attempt); in every other case it answers
  \<^verbatim>\<open>success: true\<close> with that submission id.  The outcomes of the newsletter and prayer
  inserts never change the status.
\<close>

theorem contact_write_fallback:
  assumes "required_present body"
  shows "website_rows (snd (contact_POST env (Resolves body))) = [websiteMessagePayload env body]
    \<and> fallback_rows (snd (contact_POST env (Resolves body))) =
         (if returned_error (website_insert env (websiteMessagePayload env body))
          then [fallbackPayload env body] else [])
    \<and> msg_id (fallbackPayload env body) = msg_id (websiteMessagePayload env body)
    \<and> msg_id (websiteMessagePayload env body) = submission_uuid env
    \<and> (fst (contact_POST env (Resolves body)) = FailedToSubmit \<longleftrightarrow>
          returned_error (website_insert env (websiteMessagePayload env body))
          \<and> returned_error (fallback_insert env (fallbackPayload env body)))
    \<and> (fst (contact_POST env (Resolves body)) = InternalServerError \<longleftrightarrow>
          threw (website_insert env (websiteMessagePayload env body))
          \<or> returned_error (website_insert env (websiteMessagePayload env body))
             \<and> threw (fallback_insert env (fallbackPayload env body)))
    \<and> (contact_status (fst (contact_POST env (Resolves body))) \<noteq> 500 \<longrightarrow>
          (\<exists>r. fst (contact_POST env (Resolves body)) = ContactOk r \<and> success r
             \<and> submission_id r = submission_uuid env))
    \<and> contact_status (fst (contact_POST (env\<lparr> newsletter_insert := n, prayer_insert := p \<rparr>) (Resolves body)))
        = contact_status (fst (contact_POST env (Resolves body)))"
proof -
  let ?env' = "env\<lparr> newsletter_insert := n, prayer_insert := p \<rparr>"
  have same: "websiteMessagePayload ?env' body = websiteMessagePayload env body"
    "fallbackPayload ?env' body = fallbackPayload env body"
    by (simp_all add: websiteMessagePayload_def fallbackPayload_def)
  note resp = contact_POST_response [OF assms]
  have rows: "website_rows (snd (contact_POST env (Resolves body))) = [websiteMessagePayload env body]"
    "fallback_rows (snd (contact_POST env (Resolves body))) =
         (if returned_error (website_insert env (websiteMessagePayload env body))
          then [fallbackPayload env body] else [])"
    by (simp_all add: contact_POST_eq contact_try_rows [OF assms])
  have ids: "msg_id (fallbackPayload env body) = msg_id (websiteMessagePayload env body)"
    "msg_id (websiteMessagePayload env body) = submission_uuid env"
    by (simp_all add: websiteMessagePayload_def fallbackPayload_def)
  have failed: "fst (contact_POST env (Resolves body)) = FailedToSubmit \<longleftrightarrow>
          returned_error (website_insert env (websiteMessagePayload env body))
          \<and> returned_error (fallback_insert env (fallbackPayload env body))"
    by (auto simp: resp threw_def returned_error_def split: awaited.splits)
  have internal: "fst (contact_POST env (Resolves body)) = InternalServerError \<longleftrightarrow>
          threw (website_insert env (websiteMessagePayload env body))
          \<or> returned_error (website_insert env (websiteMessagePayload env body))
             \<and> threw (fallback_insert env (fallbackPayload env body))"
    by (auto simp: resp threw_def returned_error_def split: awaited.splits)
  have ok: "contact_status (fst (contact_POST env (Resolves body))) \<noteq> 500 \<longrightarrow>
          (\<exists>r. fst (contact_POST env (Resolves body)) = ContactOk r \<and> success r
             \<and> submission_id r = submission_uuid env)"
    by (simp add: resp success_response_def)
  have indep: "contact_status (fst (contact_POST ?env' (Resolves body)))
        = contact_status (fst (contact_POST env (Resolves body)))"
    by (simp add: resp [of ?env'] resp [of env] same)
  show ?thesis
    using rows ids failed internal ok indep by simp
qed

theorem contact_write_fallback_witness:
  "required_present contact_body_ok
   \<and> website_rows (snd (contact_POST contact_env_no_table (Resolves contact_body_ok)))
       = [websiteMessagePayload contact_env_no_table contact_body_ok]
   \<and> fallback_rows (snd (contact_POST contact_env_no_table (Resolves contact_body_ok)))
       = [fallbackPayload contact_env_no_table contact_body_ok]
   \<and> fst (contact_POST contact_env_no_table (Resolves contact_body_ok)) \<noteq> FailedToSubmit
   \<and> fst (contact_POST contact_env_no_table (Resolves contact_body_ok)) \<noteq> InternalServerError
   \<and> fallback_rows (snd (contact_POST contact_env_ok (Resolves contact_body_ok))) = []"
proof -
  have req: "required_present contact_body_ok"
    by (simp add: required_present_def contact_body_ok_def truthy_def)
  have w: "returned_error (website_insert contact_env_no_table
             (websiteMessagePayload contact_env_no_table contact_body_ok))"
    "\<not> threw (website_insert contact_env_no_table
             (websiteMessagePayload contact_env_no_table contact_body_ok))"
    by (simp_all add: contact_env_no_table_def returned_error_def threw_def)
  have f: "\<not> returned_error (fallback_insert contact_env_no_table
             (fallbackPayload contact_env_no_table contact_body_ok))"
    "\<not> threw (fallback_insert contact_env_no_table
             (fallbackPayload contact_env_no_table contact_body_ok))"
    by (simp_all add: contact_env_no_table_def contact_env_ok_def returned_error_def threw_def)
  have ok: "\<not> returned_error (website_insert contact_env_ok
             (websiteMessagePayload contact_env_ok contact_body_ok))"
    by (simp add: contact_env_ok_def returned_error_def)
  show ?thesis
    using contact_write_fallback [OF req, where env = contact_env_no_table
            and n = "newsletter_insert contact_env_no_table"
            and p = "prayer_insert contact_env_no_table"]
      contact_write_fallback [OF req, where env = contact_env_ok
            and n = "newsletter_insert contact_env_ok" and p = "prayer_insert contact_env_ok"]
      req w f ok
    by simp
qed

text \<open>
  C9 as stated says that the answer is 500 if and only if both inserts fail.  When the
  await of the \<^verbatim>\<open>website_messages\<close> insert throws, the outer \<^verbatim>\<open>catch\<close> answers 500
  although the \<^verbatim>\<open>contact_submissions\<close> insert was never attempted.
\<close>

theorem contact_throw_counterexample:
  "required_present contact_body_ok
   \<and> contact_status (fst (contact_POST contact_env_throws (Resolves contact_body_ok))) = 500
   \<and> fallback_rows (snd (contact_POST contact_env_throws (Resolves contact_body_ok))) = []"
  by (simp add: required_present_def contact_body_ok_def truthy_def contact_POST_def
      contact_try_def newsletter_step_def store_message_def contact_env_throws_def
      contact_env_ok_def opted_in_def Let_def)

section \<open>Properties of the content handlers\<close>

subsection \<open>The branches of the events handler\<close>

lemma events_unconfigured:
  assumes "unset (NEXT_PUBLIC_SUPABASE_URL env) \<or> unset (NEXT_PUBLIC_SUPABASE_ANON_KEY env)"
  shows "events_GET env = default_events_response ''Using default events - Supabase not configured''"
  using assms by (auto simp: events_GET_def events_try_def)

lemma events_client_failed:
  assumes "\<not> unset (NEXT_PUBLIC_SUPABASE_URL env)" "\<not> unset (NEXT_PUBLIC_SUPABASE_ANON_KEY env)"
    and "createServerSupabaseClient env = Some e"
  shows "events_GET env = default_events_response ''Using default events - Supabase client failed''"
  using assms by (simp add: events_GET_def events_try_def)

lemma events_query_error:
  assumes "events_store_reachable env"
    and "events_query env (today env) = Resolves r" and "error r = Some err"
  shows "events_GET env =
    default_events_response (''Using default events - Database error: '' @ message err)"
  using assms by (simp add: events_GET_def events_try_def events_store_reachable_def)

lemma events_query_empty:
  assumes "events_store_reachable env"
    and "events_query env (today env) = Resolves r" and "error r = None"
    and "data r = None \<or> data r = Some []"
  shows "events_GET env =
    default_events_response ''Using default events - No upcoming events found''"
  using assms by (auto simp: events_GET_def events_try_def events_store_reachable_def)

lemma events_query_rows:
  assumes "events_store_reachable env"
    and "events_query env (today env) = Resolves r" and "error r = None"
    and "data r = Some rows" and "rows \<noteq> []"
    and "images_query env (map row_id rows) = Resolves ir"
    and "imageMap (data ir) = Inr m"
  shows "events_GET env =
    \<lparr> events = map (transformEvent m) rows,
      events_source = ''database'',
      events_message = ''Loaded '' @ digits (length rows) @ '' upcoming events from database'' \<rparr>"
  using assms by (simp add: events_GET_def events_try_def events_store_reachable_def Let_def)

lemma events_caught:
  assumes "events_try env = Inl e"
  shows "events_GET env = default_events_response ''Using default events - Unexpected error''"
  using assms by (simp add: events_GET_def)

lemma events_image_map_throws:
  assumes "events_store_reachable env"
    and "events_query env (today env) = Resolves r" and "error r = None"
    and "data r = Some rows" and "rows \<noteq> []"
    and "images_query env (map row_id rows) = Resolves ir"
    and "imageMap (data ir) = Inl e"
  shows "events_try env = Inl e"
  using assms by (simp add: events_try_def events_store_reachable_def)

lemma events_try_throws:
  assumes "events_store_reachable env" and "events_query env (today env) = Rejects e"
  shows "events_try env = Inl e"
  using assms by (simp add: events_try_def events_store_reachable_def)

lemma events_GET_shape:
  "events_GET env = default_events_response (events_message (events_GET env))
   \<or> (events_source (events_GET env) = ''database'' \<and> events (events_GET env) \<noteq> [])"
  by (auto simp: events_GET_def events_try_def default_events_response_def Let_def
      split: sum.splits option.splits awaited.splits)

subsection \<open>The image map\<close>

lemma map_of_add_to_group:
  "map_of (add_to_group acc img) k =
    (if k = image_event_id img
     then Some (case map_of acc k of None \<Rightarrow> [img] | Some g \<Rightarrow> g @ [img])
     else map_of acc k)"
  by (induction acc img rule: add_to_group.induct) auto

lemma map_of_foldl_add_to_group:
  "map_of (foldl add_to_group acc imgs) k =
    (case map_of acc k of
       None \<Rightarrow> (case filter (\<lambda>img. image_event_id img = k) imgs of [] \<Rightarrow> None | g \<Rightarrow> Some g)
     | Some g \<Rightarrow> Some (g @ filter (\<lambda>img. image_event_id img = k) imgs))"
proof (induction imgs arbitrary: acc)
  case Nil
  then show ?case by (simp split: option.splits)
next
  case (Cons img imgs)
  show ?case
    by (simp add: Cons.IH map_of_add_to_group split: option.splits list.splits)
qed

lemma keys_add_to_group:
  "set (map fst (add_to_group acc img)) = insert (image_event_id img) (set (map fst acc))"
  by (induction acc img rule: add_to_group.induct) auto

text \<open>A \<^verbatim>\<open>reduce\<close> that does not throw has grouped every image.\<close>

lemma reduce_images_Inr:
  assumes "reduce_images acc imgs = Inr groups"
  shows "groups = foldl add_to_group acc imgs"
  using assms
proof (induction imgs arbitrary: acc)
  case Nil
  then show ?case by simp
next
  case (Cons img imgs)
  from Cons.prems obtain acc' where step: "push_image acc img = Inr acc'"
    and rest: "reduce_images acc' imgs = Inr groups"
    by (auto split: sum.splits)
  from step have "acc' = add_to_group acc img"
    by (auto simp: push_image_def split: if_splits)
  with Cons.IH [OF rest] show ?case by simp
qed

text \<open>
  The \<^verbatim>\<open>reduce\<close> throws exactly when some image carries the name of an inherited
  member: no own property ever has such a name.
\<close>

lemma reduce_images_throws:
  assumes "set (map fst acc) \<inter> set objectPrototypeKeys = {}"
  shows "isl (reduce_images acc imgs) \<longleftrightarrow> (\<exists>img \<in> set imgs. inherited_id img)"
  using assms
proof (induction imgs arbitrary: acc)
  case Nil
  then show ?case by simp
next
  case (Cons img imgs)
  show ?case
  proof (cases "inherited_id img")
    case True
    with Cons.prems have "image_event_id img \<notin> set (map fst acc)"
      by (auto simp: inherited_id_def)
    with True show ?thesis
      by (simp add: push_image_def inherited_id_def)
  next
    case False
    then have step: "push_image acc img = Inr (add_to_group acc img)"
      by (simp add: push_image_def inherited_id_def)
    have "set (map fst (add_to_group acc img)) \<inter> set objectPrototypeKeys = {}"
      unfolding keys_add_to_group using Cons.prems False by (simp add: inherited_id_def)
    from Cons.IH [OF this] False show ?thesis
      by (simp add: step)
  qed
qed

lemma imagesByEvent_throws:
  "isl (imagesByEvent imgs) \<longleftrightarrow> (\<exists>img \<in> set imgs. inherited_id img)"
  by (simp add: imagesByEvent_def reduce_images_throws)

lemma map_of_imagesByEvent:
  assumes "imagesByEvent imgs = Inr groups"
  shows "map_of groups k =
    (case filter (\<lambda>img. image_event_id img = k) imgs of [] \<Rightarrow> None | g \<Rightarrow> Some g)"
  using reduce_images_Inr [of "[]" imgs groups] assms
  by (simp add: imagesByEvent_def map_of_foldl_add_to_group)

lemma find_filter: "find P xs = (case filter P xs of [] \<Rightarrow> None | x # _ \<Rightarrow> Some x)"
  by (induction xs) auto

lemma imageMap_get_find:
  assumes "imageMap (Some imgs) = Inr m"
  shows "imageMap_get m k = find (\<lambda>img. image_event_id img = k) imgs"
proof (cases "imgs = []")
  case True
  with assms show ?thesis by (auto simp: imageMap_get_def imageMap_def)
next
  case False
  with assms obtain groups where groups: "imagesByEvent imgs = Inr groups"
    and m: "m = map (\<lambda>(eventId, group).
                (eventId, case group of [] \<Rightarrow> None | first # _ \<Rightarrow> Some first)) groups"
    by (auto simp: imageMap_def split: sum.splits)
  have "map_of m k
        = map_option (\<lambda>group. case group of [] \<Rightarrow> None | first # _ \<Rightarrow> Some first)
            (map_of groups k)"
    unfolding m by (induction groups) auto
  then show ?thesis
    by (simp add: imageMap_get_def map_of_imagesByEvent [OF groups] find_filter
        split: list.splits option.splits)
qed

lemma imageMap_throws:
  "isl (imageMap images) \<longleftrightarrow>
    (case images of None \<Rightarrow> False | Some imgs \<Rightarrow> \<exists>img \<in> set imgs. inherited_id img)"
proof (cases images)
  case None
  then show ?thesis by (simp add: imageMap_def)
next
  case (Some imgs)
  show ?thesis
  proof (cases "imgs = []")
    case True
    with Some show ?thesis by (simp add: imageMap_def)
  next
    case False
    with Some imagesByEvent_throws [of imgs] show ?thesis
      by (cases "imagesByEvent imgs") (simp_all add: imageMap_def)
  qed
qed

lemma imageMap_none:
  assumes "images = None \<or> images = Some []"
  shows "imageMap images = Inr []"
  using assms by (auto simp: imageMap_def)

subsection \<open>The branches of the tenant-settings handler\<close>

lemma tenant_unconfigured:
  assumes "unset (tenant_SUPABASE_URL env) \<or> unset (tenant_SUPABASE_ANON_KEY env)"
  shows "tenant_settings_GET env = TenantFailure ''Database configuration missing'' (Some False)"
  using assms by (auto simp: tenant_settings_GET_def tenant_try_def)

lemma tenant_policy_rejected:
  assumes "tenant_store_reachable env"
    and "tenant_settings_query env (tenant_key env) = Resolves r"
    and "error r = Some err" and "is_policy_rejection err"
  shows "tenant_settings_GET env =
    TenantEnvelope (default_tenant_envelope env
      ''Using default tenant settings - database not accessible'' None)"
  using assms by (simp add: tenant_settings_GET_def tenant_try_def tenant_store_reachable_def)

lemma tenant_other_error:
  assumes "tenant_store_reachable env"
    and "tenant_settings_query env (tenant_key env) = Resolves r"
    and "error r = Some err" and "\<not> is_policy_rejection err"
  shows "tenant_settings_GET env = TenantFailure (message err) None"
  using assms by (simp add: tenant_settings_GET_def tenant_try_def tenant_store_reachable_def)

lemma tenant_empty:
  assumes "tenant_store_reachable env"
    and "tenant_settings_query env (tenant_key env) = Resolves r"
    and "error r = None" and "data r = None \<or> data r = Some []"
  shows "tenant_settings_GET env =
    TenantEnvelope (default_tenant_envelope env ''No tenant settings found, using defaults'' None)"
  using assms by (auto simp: tenant_settings_GET_def tenant_try_def tenant_store_reachable_def)

lemma tenant_rows:
  assumes "tenant_store_reachable env"
    and "tenant_settings_query env (tenant_key env) = Resolves r"
    and "error r = None" and "data r = Some (first # rest)"
  shows "tenant_settings_GET env =
    TenantEnvelope \<lparr> tenant_success = True, tenant_data = first,
      tenant_message = ''Tenant settings found'', tenant_source = ''database'',
      tenant_error = None \<rparr>"
  using assms by (simp add: tenant_settings_GET_def tenant_try_def tenant_store_reachable_def)

lemma tenant_caught:
  assumes "tenant_try env = Inl e"
  shows "tenant_settings_GET env =
    TenantEnvelope (default_tenant_envelope env ''Error occurred, using default settings''
      (Some (error_message_of e)))"
  using assms by (simp add: tenant_settings_GET_def)

lemma tenant_status_500:
  "tenant_status (tenant_settings_GET env) = 500 \<longleftrightarrow>
    unset (tenant_SUPABASE_URL env) \<or> unset (tenant_SUPABASE_ANON_KEY env)
    \<or> (tenant_store_reachable env
        \<and> other_query_error (tenant_settings_query env (tenant_key env)))"
  by (auto simp: tenant_settings_GET_def tenant_try_def tenant_store_reachable_def
      other_query_error_def split: option.splits awaited.splits list.splits)

lemma tenant_envelope_shape:
  assumes "tenant_settings_GET env = TenantEnvelope r"
  shows "tenant_success r \<and> (tenant_source r = ''database'' \<or> tenant_source r = ''default'')"
  using assms
  by (auto simp: tenant_settings_GET_def tenant_try_def default_tenant_envelope_def
      split: sum.splits if_splits option.splits awaited.splits list.splits)

subsection \<open>The branches of the giving-page handler\<close>

lemma giving_caught:
  assumes "giving_try env = Inl e"
  shows "giving_page_GET env = defaultGivingPageContent ''error_fallback''"
  using assms by (simp add: giving_page_GET_def)

lemma giving_page_missing:
  assumes "giving_createClient env = None" and "page_query env = Resolves pr"
    and "error pr \<noteq> None \<or> data pr = None"
  shows "giving_page_GET env = defaultGivingPageContent ''default''"
  using assms by (auto simp: giving_page_GET_def giving_try_def split: option.splits)

lemma giving_sections_error:
  assumes "giving_createClient env = None" and "page_query env = Resolves pr"
    and "error pr = None" and "data pr = Some pageData"
    and "sections_query env (page_id pageData) = Resolves sr" and "error sr = Some err"
  shows "giving_page_GET env = defaultGivingPageContent ''default''"
  using assms by (simp add: giving_page_GET_def giving_try_def)

lemma giving_database:
  assumes "giving_createClient env = None" and "page_query env = Resolves pr"
    and "error pr = None" and "data pr = Some pageData"
    and "sections_query env (page_id pageData) = Resolves sr" and "error sr = None"
    and "funds_query env = Resolves fr"
  shows "giving_page_GET env =
    foldl apply_section
      \<lparr> hero = default_hero, giving_methods = default_giving_methods,
        fund_designations = fundDesignations fr, impact = default_impact,
        giving_source = ''database'' \<rparr>
      (case data sr of None \<Rightarrow> [] | Some sectionsData \<Rightarrow> sectionsData)"
  using assms by (simp add: giving_page_GET_def giving_try_def)

lemma apply_section_keeps:
  "giving_source (apply_section c section) = giving_source c"
  "fund_designations (apply_section c section) = fund_designations c"
  by (simp_all add: apply_section_def split: option.splits)

lemma foldl_apply_section_keeps:
  "giving_source (foldl apply_section c sections) = giving_source c"
  "fund_designations (foldl apply_section c sections) = fund_designations c"
  by (induction sections arbitrary: c) (simp_all add: apply_section_keeps)

lemma keys_set_key: "keys (set_key k v obj) = insert k (keys obj)"
  by (induction k v obj rule: set_key.induct) (auto simp: keys_def)

lemma keys_key_order: "keys (key_order obj) = keys obj"
  by (auto simp: keys_def key_order_def)

lemma keys_spread: "keys (spread a b) = keys a \<union> keys b"
proof -
  have "keys (foldl (\<lambda>acc (k, v). set_key k v acc) a b) = keys a \<union> fst ` set b" for a
    by (induction b arbitrary: a) (auto simp: keys_set_key)
  then show ?thesis by (simp add: spread_def keys_key_order) (simp add: keys_def)
qed

lemma apply_section_keys:
  "keys (hero c) \<subseteq> keys (hero (apply_section c section))"
  "keys (giving_methods c) \<subseteq> keys (giving_methods (apply_section c section))"
  "keys (impact c) \<subseteq> keys (impact (apply_section c section))"
  by (auto simp: apply_section_def keys_spread split: option.splits)

lemma foldl_apply_section_keys:
  "keys (hero c) \<subseteq> keys (hero (foldl apply_section c sections))
   \<and> keys (giving_methods c) \<subseteq> keys (giving_methods (foldl apply_section c sections))
   \<and> keys (impact c) \<subseteq> keys (impact (foldl apply_section c sections))"
proof (induction sections arbitrary: c)
  case Nil
  show ?case by simp
next
  case (Cons sec sections)
  show ?case
    using apply_section_keys [of c sec] Cons.IH [of "apply_section c sec"]
    by simp blast
qed

lemma database_content_keys:
  "keys default_hero \<subseteq> keys (hero (foldl apply_section
      \<lparr> hero = default_hero, giving_methods = default_giving_methods,
        fund_designations = fd, impact = default_impact, giving_source = src \<rparr> sections))"
  "keys default_giving_methods \<subseteq> keys (giving_methods (foldl apply_section
      \<lparr> hero = default_hero, giving_methods = default_giving_methods,
        fund_designations = fd, impact = default_impact, giving_source = src \<rparr> sections))"
  "keys default_impact \<subseteq> keys (impact (foldl apply_section
      \<lparr> hero = default_hero, giving_methods = default_giving_methods,
        fund_designations = fd, impact = default_impact, giving_source = src \<rparr> sections))"
  using foldl_apply_section_keys [of "\<lparr> hero = default_hero, giving_methods = default_giving_methods,
        fund_designations = fd, impact = default_impact, giving_source = src \<rparr>" sections]
  by simp_all

lemma fundDesignations_nonempty: "fundDesignations r \<noteq> []"
  by (auto simp: fundDesignations_def default_fund_designations_def
      split: option.splits prod.splits)

lemma giving_usable:
  "(giving_source (giving_page_GET env) = ''database''
      \<or> giving_source (giving_page_GET env) = ''default''
      \<or> giving_source (giving_page_GET env) = ''error_fallback'')
   \<and> fund_designations (giving_page_GET env) \<noteq> []
   \<and> keys default_hero \<subseteq> keys (hero (giving_page_GET env))
   \<and> keys default_giving_methods \<subseteq> keys (giving_methods (giving_page_GET env))
   \<and> keys default_impact \<subseteq> keys (impact (giving_page_GET env))"
proof -
  have dflt: "fund_designations (defaultGivingPageContent src) \<noteq> []" for src
    by (simp add: defaultGivingPageContent_def default_fund_designations_def)
  show ?thesis
    by (simp add: giving_page_GET_def giving_try_def defaultGivingPageContent_def
        default_fund_designations_def foldl_apply_section_keeps fundDesignations_nonempty
        database_content_keys
        split: sum.splits option.splits awaited.splits prod.splits)
qed

lemma events_usable:
  "events (events_GET env) \<noteq> []
   \<and> (events_source (events_GET env) = ''database'' \<or> events_source (events_GET env) = ''default'')
   \<and> events_message (events_GET env) \<noteq> []"
  by (auto simp: events_GET_def events_try_def default_events_response_def defaultEvents_def Let_def
      split: sum.splits option.splits awaited.splits)

section \<open>The claims about content resolution\<close>

text \<open>
  C1, as the handlers have it.  None of the three \<^verbatim>\<open>GET\<close> handlers raises: each is a
  total function of the state of its store.  The events handler always answers an
  envelope with at least one event, tagged \<^verbatim>\<open>database\<close> or \<^verbatim>\<open>default\<close>; the giving-page
  handler always answers a content object with every default key of its three sections
  and at least one fund designation, tagged \<^verbatim>\<open>database\<close>, \<^verbatim>\<open>default\<close> or
  \<^verbatim>\<open>error_fallback\<close>.  The tenant-settings handler answers an error body with status 500
  exactly when its configuration is missing or its query resolves with an error that is
  not a policy rejection, and otherwise an envelope tagged \<^verbatim>\<open>database\<close> or \<^verbatim>\<open>default\<close>.
\<close>

theorem resolve_total:
  "events (events_GET ev) \<noteq> []
   \<and> (events_source (events_GET ev) = ''database'' \<or> events_source (events_GET ev) = ''default'')
   \<and> (giving_source (giving_page_GET gv) = ''database''
        \<or> giving_source (giving_page_GET gv) = ''default''
        \<or> giving_source (giving_page_GET gv) = ''error_fallback'')
   \<and> fund_designations (giving_page_GET gv) \<noteq> []
   \<and> keys default_hero \<subseteq> keys (hero (giving_page_GET gv))
   \<and> keys default_giving_methods \<subseteq> keys (giving_methods (giving_page_GET gv))
   \<and> keys default_impact \<subseteq> keys (impact (giving_page_GET gv))
   \<and> (tenant_status (tenant_settings_GET tn) = 500 \<longleftrightarrow>
         unset (tenant_SUPABASE_URL tn) \<or> unset (tenant_SUPABASE_ANON_KEY tn)
         \<or> (tenant_store_reachable tn
             \<and> other_query_error (tenant_settings_query tn (tenant_key tn))))
   \<and> (tenant_status (tenant_settings_GET tn) \<noteq> 500 \<longrightarrow>
         (\<exists>r. tenant_settings_GET tn = TenantEnvelope r \<and> tenant_success r
            \<and> (tenant_source r = ''database'' \<or> tenant_source r = ''default'')))"
proof -
  have t: "tenant_status (tenant_settings_GET tn) \<noteq> 500 \<longrightarrow>
         (\<exists>r. tenant_settings_GET tn = TenantEnvelope r \<and> tenant_success r
            \<and> (tenant_source r = ''database'' \<or> tenant_source r = ''default''))"
    using tenant_envelope_shape [of tn] by (cases "tenant_settings_GET tn") auto
  show ?thesis
    using events_usable [of ev] giving_usable [of gv] tenant_status_500 [of tn] t by blast
qed

theorem resolve_total_witness:
  "events (events_GET events_env_throws) \<noteq> []
   \<and> fund_designations (giving_page_GET giving_env_throws) \<noteq> []
   \<and> tenant_status (tenant_settings_GET tenant_env_throws) \<noteq> 500
   \<and> tenant_status (tenant_settings_GET tenant_env_down) = 500"
proof -
  have a: "\<not> unset (tenant_SUPABASE_URL tenant_env_throws)"
    "\<not> unset (tenant_SUPABASE_ANON_KEY tenant_env_throws)"
    "\<not> other_query_error (tenant_settings_query tenant_env_throws (tenant_key tenant_env_throws))"
    by (simp_all add: tenant_env_throws_def tenant_env_ok_def unset_def truthy_def
        other_query_error_def)
  have b: "tenant_store_reachable tenant_env_down"
    "other_query_error (tenant_settings_query tenant_env_down (tenant_key tenant_env_down))"
    by (simp_all add: tenant_env_down_def tenant_env_ok_def tenant_store_reachable_def unset_def
        truthy_def other_query_error_def is_policy_rejection_def connection_refused_def)
  show ?thesis
    using resolve_total [of events_env_throws giving_env_throws tenant_env_throws]
      resolve_total [of events_env_throws giving_env_throws tenant_env_down] a b
    by simp
qed

text \<open>
  C1 as stated includes missing configuration among the states in which no error
  response is surfaced.  The tenant-settings handler answers it with status 500.
\<close>

theorem tenant_unconfigured_counterexample:
  "unset (tenant_SUPABASE_URL tenant_env_unconfigured)
   \<and> tenant_settings_GET tenant_env_unconfigured
       = TenantFailure ''Database configuration missing'' (Some False)
   \<and> tenant_status (tenant_settings_GET tenant_env_unconfigured) = 500"
  by (simp add: tenant_env_unconfigured_def tenant_env_ok_def unset_def
      tenant_settings_GET_def tenant_try_def)

text \<open>
  C2, as the handlers have it.  Whenever the catch-all branch is taken, the handler
  answers its bundled default payload: the giving-page handler tags it
  \<^verbatim>\<open>error_fallback\<close>, the events handler and the tenant-settings handler tag it
  \<^verbatim>\<open>default\<close> (the latter with the error message in an extra field).
\<close>

theorem catch_all_fallback:
  "(events_try ev = Inl e1 \<longrightarrow>
      events (events_GET ev) = defaultEvents
      \<and> events_source (events_GET ev) = ''default''
      \<and> events_message (events_GET ev) = ''Using default events - Unexpected error'')
   \<and> (giving_try gv = Inl e2 \<longrightarrow>
      giving_page_GET gv = defaultGivingPageContent ''error_fallback''
      \<and> giving_source (giving_page_GET gv) = ''error_fallback'')
   \<and> (tenant_try tn = Inl e3 \<longrightarrow>
      (\<exists>r. tenant_settings_GET tn = TenantEnvelope r
         \<and> tenant_data r = defaultSettings (now_created tn) (now_updated tn)
         \<and> tenant_source r = ''default''
         \<and> tenant_error r = Some (error_message_of e3)))"
  by (simp add: events_caught giving_caught tenant_caught default_events_response_def
      defaultGivingPageContent_def default_tenant_envelope_def)

theorem catch_all_fallback_witness:
  "events_try events_env_throws = Inl (JsError ''fetch failed'')
   \<and> events (events_GET events_env_throws) = defaultEvents
   \<and> giving_try giving_env_throws = Inl (JsError ''fetch failed'')
   \<and> giving_source (giving_page_GET giving_env_throws) = ''error_fallback''
   \<and> tenant_try tenant_env_throws = Inl (JsError ''fetch failed'')
   \<and> tenant_status (tenant_settings_GET tenant_env_throws) = 200"
proof -
  have a: "events_try events_env_throws = Inl (JsError ''fetch failed'')"
    by (simp add: events_try_def events_env_throws_def events_env_ok_def unset_def truthy_def)
  have b: "giving_try giving_env_throws = Inl (JsError ''fetch failed'')"
    by (simp add: giving_try_def giving_env_throws_def giving_env_ok_def)
  have c: "tenant_try tenant_env_throws = Inl (JsError ''fetch failed'')"
    by (simp add: tenant_try_def tenant_env_throws_def tenant_env_ok_def unset_def truthy_def)
  show ?thesis
    using catch_all_fallback [of events_env_throws "JsError ''fetch failed''"
        giving_env_throws "JsError ''fetch failed''" tenant_env_throws "JsError ''fetch failed''"]
      a b c
    by auto
qed

text \<open>
  C2 as stated tags every catch-all answer \<^verbatim>\<open>error_fallback\<close>.  The events handler
  tags it \<^verbatim>\<open>default\<close>.
\<close>

theorem events_catch_counterexample:
  "events_try events_env_throws = Inl (JsError ''fetch failed'')
   \<and> events_source (events_GET events_env_throws) = ''default''
   \<and> events_source (events_GET events_env_throws) \<noteq> ''error_fallback''"
  by (simp add: events_GET_def events_try_def events_env_throws_def events_env_ok_def unset_def
      truthy_def default_events_response_def)

text \<open>
  C3, as the handlers have it.  The events handler answers the four bundled default
  events, tagged \<^verbatim>\<open>default\<close> and with a diagnostic message, whenever its configuration is
  missing, its client cannot be created, or its query resolves with an error (a policy
  rejection included) or throws.  The tenant-settings handler answers its default settings, tagged
  \<^verbatim>\<open>default\<close> and with a message, when its query is rejected by a policy.  The
  giving-page handler answers its default content tagged \<^verbatim>\<open>default\<close> (its answer has no
  message field) when the page query or the sections query resolves with an error.
\<close>

theorem transient_or_policy_default:
  "(\<not> events_store_reachable ev \<or> returned_error (events_query ev (today ev))
        \<or> threw (events_query ev (today ev)) \<longrightarrow>
      events (events_GET ev) = defaultEvents
      \<and> length (events (events_GET ev)) = 4
      \<and> events_source (events_GET ev) = ''default''
      \<and> events_message (events_GET ev) \<noteq> [])
   \<and> (tenant_store_reachable tn \<and> tenant_settings_query tn (tenant_key tn) = Resolves r
        \<and> error r = Some err \<and> is_policy_rejection err \<longrightarrow>
      tenant_settings_GET tn =
        TenantEnvelope
          \<lparr> tenant_success = True,
            tenant_data = defaultSettings (now_created tn) (now_updated tn),
            tenant_message = ''Using default tenant settings - database not accessible'',
            tenant_source = ''default'',
            tenant_error = None \<rparr>)
   \<and> (giving_createClient gv = None \<and> page_query gv = Resolves pr \<and> error pr \<noteq> None \<longrightarrow>
      giving_page_GET gv = defaultGivingPageContent ''default'')
   \<and> (giving_createClient gv = None \<and> page_query gv = Resolves pr \<and> error pr = None
        \<and> data pr = Some pageData \<and> returned_error (sections_query gv (page_id pageData)) \<longrightarrow>
      giving_page_GET gv = defaultGivingPageContent ''default'')"
proof -
  have ev: "events_GET ev = default_events_response (events_message (events_GET ev))
      \<and> events_message (events_GET ev) \<noteq> []"
    if "\<not> events_store_reachable ev \<or> returned_error (events_query ev (today ev))
        \<or> threw (events_query ev (today ev))"
    using that
    by (auto simp: events_GET_def events_try_def events_store_reachable_def returned_error_def
        threw_def default_events_response_def split: awaited.splits option.splits sum.splits)
  have ev': "events (events_GET ev) = defaultEvents
      \<and> length (events (events_GET ev)) = 4
      \<and> events_source (events_GET ev) = ''default''
      \<and> events_message (events_GET ev) \<noteq> []"
    if h: "\<not> events_store_reachable ev \<or> returned_error (events_query ev (today ev))
        \<or> threw (events_query ev (today ev))"
  proof -
    have "events (default_events_response m) = defaultEvents
      \<and> length (events (default_events_response m)) = 4
      \<and> events_source (default_events_response m) = ''default''" for m
      by (simp add: default_events_response_def defaultEvents_def)
    with ev [OF h] show ?thesis by metis
  qed
  have tn: "tenant_settings_GET tn =
        TenantEnvelope
          \<lparr> tenant_success = True,
            tenant_data = defaultSettings (now_created tn) (now_updated tn),
            tenant_message = ''Using default tenant settings - database not accessible'',
            tenant_source = ''default'',
            tenant_error = None \<rparr>"
    if "tenant_store_reachable tn" "tenant_settings_query tn (tenant_key tn) = Resolves r"
      "error r = Some err" "is_policy_rejection err"
    using tenant_policy_rejected [OF that] by (simp add: default_tenant_envelope_def)
  have gv1: "giving_page_GET gv = defaultGivingPageContent ''default''"
    if "giving_createClient gv = None" "page_query gv = Resolves pr" "error pr \<noteq> None"
    using that giving_page_missing [of gv pr] by simp
  have gv2: "giving_page_GET gv = defaultGivingPageContent ''default''"
    if "giving_createClient gv = None" "page_query gv = Resolves pr" "error pr = None"
      "data pr = Some pageData" "returned_error (sections_query gv (page_id pageData))"
    using that
    by (auto simp: returned_error_def split: awaited.splits intro: giving_sections_error)
  show ?thesis
    using ev' tn gv1 gv2 by blast
qed

theorem transient_or_policy_default_witness:
  "\<not> events_store_reachable events_env_unconfigured
   \<and> events (events_GET events_env_unconfigured) = defaultEvents
   \<and> returned_error (events_query events_env_denied (today events_env_denied))
   \<and> length (events (events_GET events_env_denied)) = 4
   \<and> tenant_status (tenant_settings_GET tenant_env_denied) = 200
   \<and> giving_page_GET giving_env_no_page = defaultGivingPageContent ''default''"
proof -
  have a: "\<not> events_store_reachable events_env_unconfigured"
    by (simp add: events_store_reachable_def events_env_unconfigured_def unset_def)
  have b: "returned_error (events_query events_env_denied (today events_env_denied))"
    by (simp add: returned_error_def events_env_denied_def)
  have c: "tenant_store_reachable tenant_env_denied"
    "tenant_settings_query tenant_env_denied (tenant_key tenant_env_denied)
      = Resolves (PgResult None (Some rls_denied))"
    "error (PgResult None (Some rls_denied)) = Some rls_denied"
    "is_policy_rejection rls_denied"
    by (simp_all add: tenant_store_reachable_def tenant_env_denied_def tenant_env_ok_def
        unset_def truthy_def is_policy_rejection_def rls_denied_def)
  have d: "giving_createClient giving_env_no_page = None"
    "page_query giving_env_no_page = Resolves (PgResult None (Some no_rows))"
    "error (PgResult None (Some no_rows)) \<noteq> None"
    by (simp_all add: giving_env_no_page_def giving_env_ok_def)
  show ?thesis
    using transient_or_policy_default [of events_env_unconfigured tenant_env_denied
        "PgResult None (Some rls_denied)" rls_denied giving_env_no_page
        "PgResult None (Some no_rows)"]
      transient_or_policy_default [of events_env_denied tenant_env_denied
        "PgResult None (Some rls_denied)" rls_denied giving_env_no_page
        "PgResult None (Some no_rows)"]
      a b c d
    by auto
qed

text \<open>
  C3 as stated covers every transient failure of every handler.  When the store cannot
  be reached from the tenant-settings handler, so that its query resolves with a fetch
  error, the handler answers that error with status 500 and no payload.
\<close>

theorem tenant_unreachable_counterexample:
  "tenant_store_reachable tenant_env_down
   \<and> tenant_settings_query tenant_env_down (tenant_key tenant_env_down)
       = Resolves (PgResult None (Some connection_refused))
   \<and> tenant_settings_GET tenant_env_down = TenantFailure ''TypeError: fetch failed'' None
   \<and> tenant_status (tenant_settings_GET tenant_env_down) = 500"
  by (simp add: tenant_store_reachable_def tenant_env_down_def tenant_env_ok_def unset_def
      truthy_def tenant_settings_GET_def tenant_try_def is_policy_rejection_def
      connection_refused_def)

lemma getEventGradient_in_gradients: "getEventGradient nm ident \<in> set gradients"
proof -
  have "0 < length gradients"
    by (simp add: gradients_def)
  then have "h mod length gradients < length gradients" for h
    by simp
  then show ?thesis
    by (simp add: getEventGradient_def Let_def del: length_greater_0_conv)
qed

text \<open>
  What the events handler answers when its fetch succeeds with rows and no fetched image
  carries the name of an inherited member: one event per row, with the id, name, date and
  capacity of the row, the location and description defaults for a missing or empty
  column, the first fetched image of the event (or none), a gradient out of the six, and
  the type derived from name and description.
\<close>

lemma events_rows_transformed:
  assumes "events_store_reachable ev"
    and "events_query ev (today ev) = Resolves r" and "error r = None"
    and "data r = Some rows" and "rows \<noteq> []"
    and "images_query ev (map row_id rows) = Resolves ir"
    and "\<forall>imgs. data ir = Some imgs \<longrightarrow> (\<forall>img \<in> set imgs. \<not> inherited_id img)"
  shows "events_GET ev =
    \<lparr> events =
        map (\<lambda>row.
              \<lparr> ev_id = row_id row,
                ev_name = row_name row,
                ev_event_date = row_event_date row,
                ev_location =
                  (case row_location row of
                     Some l \<Rightarrow> if l = [] then ''Location TBD'' else l
                   | None \<Rightarrow> ''Location TBD''),
                ev_description =
                  (case row_description row of
                     Some d \<Rightarrow> if d = [] then ''Join us for this special event.'' else d
                   | None \<Rightarrow> ''Join us for this special event.''),
                ev_capacity = row_capacity row,
                primary_image =
                  (case data ir of
                     None \<Rightarrow> None
                   | Some imgs \<Rightarrow> find (\<lambda>img. image_event_id img = row_id row) imgs),
                gradient = getEventGradient (row_name row) (row_id row),
                ev_type = getEventType (row_name row) (row_description row) \<rparr>)
          rows,
      events_source = ''database'',
      events_message = ''Loaded '' @ digits (length rows) @ '' upcoming events from database'' \<rparr>"
proof -
  have "\<not> isl (imageMap (data ir))"
    using assms(7) by (simp add: imageMap_throws split: option.splits)
  then obtain m where m: "imageMap (data ir) = Inr m"
    by (cases "imageMap (data ir)") simp_all
  have image: "imageMap_get m k =
      (case data ir of None \<Rightarrow> None | Some imgs \<Rightarrow> find (\<lambda>img. image_event_id img = k) imgs)"
    for k
  proof (cases "data ir")
    case None
    with m show ?thesis by (simp add: imageMap_def imageMap_get_def)
  next
    case (Some imgs)
    with m imageMap_get_find [of imgs m k] show ?thesis by simp
  qed
  have "transformEvent m row =
      \<lparr> ev_id = row_id row,
        ev_name = row_name row,
        ev_event_date = row_event_date row,
        ev_location =
          (case row_location row of
             Some l \<Rightarrow> if l = [] then ''Location TBD'' else l
           | None \<Rightarrow> ''Location TBD''),
        ev_description =
          (case row_description row of
             Some d \<Rightarrow> if d = [] then ''Join us for this special event.'' else d
           | None \<Rightarrow> ''Join us for this special event.''),
        ev_capacity = row_capacity row,
        primary_image =
          (case data ir of
             None \<Rightarrow> None
           | Some imgs \<Rightarrow> find (\<lambda>img. image_event_id img = row_id row) imgs),
        gradient = getEventGradient (row_name row) (row_id row),
        ev_type = getEventType (row_name row) (row_description row) \<rparr>" for row
    by (simp add: transformEvent_def image or_default_def truthy_def split: option.splits)
  then show ?thesis
    using events_query_rows [OF assms(1-6) m] by simp
qed

text \<open>
  What the giving-page handler answers when the page is found and its queries resolve,
  the sections query without an error: the fetched payment categories as fund
  designations (the defaults when there are none), and in each of the three sections the
  default keys together with the keys of the fetched sections of that type.
\<close>

lemma foldl_apply_section_hero_keys:
  "keys (hero (foldl apply_section c sections)) =
     keys (hero c) \<union> (\<Union>sec \<in> set sections.
        if section_type sec = ''hero'' then (case props sec of Some p \<Rightarrow> keys p | None \<Rightarrow> {})
        else {})"
proof (induction sections arbitrary: c)
  case Nil
  show ?case by simp
next
  case (Cons sec sections)
  have "keys (hero (apply_section c sec)) =
      keys (hero c) \<union> (if section_type sec = ''hero''
        then (case props sec of Some p \<Rightarrow> keys p | None \<Rightarrow> {}) else {})"
    by (simp add: apply_section_def keys_spread split: option.splits)
  then show ?case
    by (simp add: Cons.IH Un_assoc)
qed

lemma giving_rows_transformed:
  assumes "giving_createClient gv = None" and "page_query gv = Resolves pr"
    and "error pr = None" and "data pr = Some pageData"
    and "sections_query gv (page_id pageData) = Resolves sr" and "error sr = None"
    and "funds_query gv = Resolves fr"
  shows "giving_source (giving_page_GET gv) = ''database''"
    and "fund_designations (giving_page_GET gv) =
      (case data fr of
         Some fundData \<Rightarrow>
           if error fr = None \<and> fundData \<noteq> []
           then map (\<lambda>fund.
                  \<lparr> fund_id = category_id fund,
                    fund_name = category_name fund,
                    fund_description =
                      (case category_description fund of
                         Some d \<Rightarrow>
                           if d = [] then ''Support our '' @ toLowerCase (category_name fund) else d
                       | None \<Rightarrow> ''Support our '' @ toLowerCase (category_name fund)) \<rparr>)
                fundData
           else default_fund_designations
       | None \<Rightarrow> default_fund_designations)"
    and "keys (hero (giving_page_GET gv)) =
      keys default_hero \<union> (\<Union>sec \<in> set (case data sr of None \<Rightarrow> [] | Some secs \<Rightarrow> secs).
        if section_type sec = ''hero'' then (case props sec of Some p \<Rightarrow> keys p | None \<Rightarrow> {})
        else {})"
proof -
  note g = giving_database [OF assms]
  show "giving_source (giving_page_GET gv) = ''database''"
    by (simp add: g foldl_apply_section_keeps)
  have "fundDesignations fr =
      (case data fr of
         Some fundData \<Rightarrow>
           if error fr = None \<and> fundData \<noteq> []
           then map (\<lambda>fund.
                  \<lparr> fund_id = category_id fund,
                    fund_name = category_name fund,
                    fund_description =
                      (case category_description fund of
                         Some d \<Rightarrow>
                           if d = [] then ''Support our '' @ toLowerCase (category_name fund) else d
                       | None \<Rightarrow> ''Support our '' @ toLowerCase (category_name fund)) \<rparr>)
                fundData
           else default_fund_designations
       | None \<Rightarrow> default_fund_designations)"
    by (cases "error fr"; cases "data fr")
       (auto simp: fundDesignations_def fund_of_def or_default_def truthy_def
          split: option.splits)
  then show "fund_designations (giving_page_GET gv) =
      (case data fr of
         Some fundData \<Rightarrow>
           if error fr = None \<and> fundData \<noteq> []
           then map (\<lambda>fund.
                  \<lparr> fund_id = category_id fund,
                    fund_name = category_name fund,
                    fund_description =
                      (case category_description fund of
                         Some d \<Rightarrow>
                           if d = [] then ''Support our '' @ toLowerCase (category_name fund) else d
                       | None \<Rightarrow> ''Support our '' @ toLowerCase (category_name fund)) \<rparr>)
                fundData
           else default_fund_designations
       | None \<Rightarrow> default_fund_designations)"
    by (simp add: g foldl_apply_section_keeps)
  show "keys (hero (giving_page_GET gv)) =
      keys default_hero \<union> (\<Union>sec \<in> set (case data sr of None \<Rightarrow> [] | Some secs \<Rightarrow> secs).
        if section_type sec = ''hero'' then (case props sec of Some p \<Rightarrow> keys p | None \<Rightarrow> {})
        else {})"
    by (simp add: g foldl_apply_section_hero_keys)
qed

text \<open>
  C4.  The claim: whenever the fetch succeeds with at least one row, the answer is tagged
  \<^verbatim>\<open>database\<close> and its data is the transform of the fetched rows.  The events handler
  groups the fetched images in an accumulator that starts as \<^verbatim>\<open>{}\<close>.  With one
  upcoming event whose id is \<^verbatim>\<open>constructor\<close> and one image of that event, both queries
  succeed, yet \<^verbatim>\<open>acc[img.event_id]\<close> is the inherited \<^verbatim>\<open>Object\<close> function, its
  \<^verbatim>\<open>push\<close> throws, and the outer \<^verbatim>\<open>catch\<close> answers the four default events tagged
  \<^verbatim>\<open>default\<close>.
\<close>

theorem inherited_event_id_falls_back:
  "events_store_reachable events_env_constructor
   \<and> events_query events_env_constructor (today events_env_constructor)
       = Resolves (PgResult (Some [constructor_row]) None)
   \<and> images_query events_env_constructor (map row_id [constructor_row])
       = Resolves (PgResult (Some [constructor_image]) None)
   \<and> events_GET events_env_constructor =
       \<lparr> events = defaultEvents, events_source = ''default'',
         events_message = ''Using default events - Unexpected error'' \<rparr>"
proof -
  have "imagesByEvent [constructor_image]
      = Inl (JsError ''acc[img.event_id].push is not a function'')"
    by (simp add: imagesByEvent_def push_image_def constructor_image_def objectPrototypeKeys_def)
  then have "imageMap (Some [constructor_image])
      = Inl (JsError ''acc[img.event_id].push is not a function'')"
    by (simp add: imageMap_def)
  then show ?thesis
    by (simp add: events_GET_def events_try_def events_store_reachable_def
        events_env_constructor_def events_env_ok_def unset_def truthy_def
        default_events_response_def)
qed

text \<open>
  C5, as the handlers have it.  When the remote call succeeds with zero rows, the answer
  is exactly the bundled default payload, tagged \<^verbatim>\<open>default\<close>; the message is the
  handler's own: \<^verbatim>\<open>Using default events - No upcoming events found\<close> for events,
  \<^verbatim>\<open>No tenant settings found, using defaults\<close> for tenant settings, and none for the
  giving page, whose page lookup yields no row.
\<close>

theorem empty_gives_default:
  "(events_store_reachable ev \<and> events_query ev (today ev) = Resolves r \<and> error r = None
      \<and> (data r = None \<or> data r = Some []) \<longrightarrow>
      events_GET ev =
        \<lparr> events = defaultEvents, events_source = ''default'',
          events_message = ''Using default events - No upcoming events found'' \<rparr>)
   \<and> (tenant_store_reachable tn \<and> tenant_settings_query tn (tenant_key tn) = Resolves tr
        \<and> error tr = None \<and> (data tr = None \<or> data tr = Some []) \<longrightarrow>
      tenant_settings_GET tn =
        TenantEnvelope
          \<lparr> tenant_success = True,
            tenant_data = defaultSettings (now_created tn) (now_updated tn),
            tenant_message = ''No tenant settings found, using defaults'',
            tenant_source = ''default'',
            tenant_error = None \<rparr>)
   \<and> (giving_createClient gv = None \<and> page_query gv = Resolves pr \<and> data pr = None \<longrightarrow>
      giving_page_GET gv =
        \<lparr> hero = default_hero, giving_methods = default_giving_methods,
          fund_designations = default_fund_designations, impact = default_impact,
          giving_source = ''default'' \<rparr>)"
proof (intro conjI impI)
  assume "events_store_reachable ev \<and> events_query ev (today ev) = Resolves r \<and> error r = None
      \<and> (data r = None \<or> data r = Some [])"
  then show "events_GET ev =
        \<lparr> events = defaultEvents, events_source = ''default'',
          events_message = ''Using default events - No upcoming events found'' \<rparr>"
    using events_query_empty [of ev r] by (simp add: default_events_response_def)
next
  assume "tenant_store_reachable tn \<and> tenant_settings_query tn (tenant_key tn) = Resolves tr
        \<and> error tr = None \<and> (data tr = None \<or> data tr = Some [])"
  then show "tenant_settings_GET tn =
        TenantEnvelope
          \<lparr> tenant_success = True,
            tenant_data = defaultSettings (now_created tn) (now_updated tn),
            tenant_message = ''No tenant settings found, using defaults'',
            tenant_source = ''default'',
            tenant_error = None \<rparr>"
    using tenant_empty [of tn tr] by (simp add: default_tenant_envelope_def)
next
  assume "giving_createClient gv = None \<and> page_query gv = Resolves pr \<and> data pr = None"
  then show "giving_page_GET gv =
        \<lparr> hero = default_hero, giving_methods = default_giving_methods,
          fund_designations = default_fund_designations, impact = default_impact,
          giving_source = ''default'' \<rparr>"
    using giving_page_missing [of gv pr] by (simp add: defaultGivingPageContent_def)
qed

theorem empty_gives_default_witness:
  "events_store_reachable events_env_empty
   \<and> events_GET events_env_empty =
        \<lparr> events = defaultEvents, events_source = ''default'',
          events_message = ''Using default events - No upcoming events found'' \<rparr>
   \<and> tenant_store_reachable tenant_env_empty
   \<and> tenant_status (tenant_settings_GET tenant_env_empty) = 200
   \<and> giving_source (giving_page_GET giving_env_no_page) = ''default''"
proof -
  let ?r = "PgResult (Some []) None :: event_row list pg_result"
  let ?tr = "PgResult (Some []) None :: tenant_settings list pg_result"
  let ?pr = "PgResult None (Some no_rows) :: page_row pg_result"
  have ev: "events_store_reachable events_env_empty \<and>
    events_query events_env_empty (today events_env_empty) = Resolves ?r \<and> error ?r = None \<and>
    (data ?r = None \<or> data ?r = Some [])"
    by (simp add: events_store_reachable_def events_env_empty_def events_env_ok_def unset_def
        truthy_def)
  have tn: "tenant_store_reachable tenant_env_empty \<and>
    tenant_settings_query tenant_env_empty (tenant_key tenant_env_empty) = Resolves ?tr \<and>
    error ?tr = None \<and> (data ?tr = None \<or> data ?tr = Some [])"
    by (simp add: tenant_store_reachable_def tenant_env_empty_def tenant_env_ok_def unset_def
        truthy_def)
  have gv: "giving_createClient giving_env_no_page = None \<and>
    page_query giving_env_no_page = Resolves ?pr \<and> data ?pr = None"
    by (simp add: giving_env_no_page_def giving_env_ok_def)
  note claim = empty_gives_default [of events_env_empty ?r tenant_env_empty ?tr
      giving_env_no_page ?pr]
  have E: "events_GET events_env_empty =
        \<lparr> events = defaultEvents, events_source = ''default'',
          events_message = ''Using default events - No upcoming events found'' \<rparr>"
    using claim ev by blast
  have T: "tenant_settings_GET tenant_env_empty =
        TenantEnvelope
          \<lparr> tenant_success = True,
            tenant_data = defaultSettings (now_created tenant_env_empty) (now_updated tenant_env_empty),
            tenant_message = ''No tenant settings found, using defaults'',
            tenant_source = ''default'',
            tenant_error = None \<rparr>"
    using claim tn by blast
  have G: "giving_page_GET giving_env_no_page =
        \<lparr> hero = default_hero, giving_methods = default_giving_methods,
          fund_designations = default_fund_designations, impact = default_impact,
          giving_source = ''default'' \<rparr>"
    using claim gv by blast
  show ?thesis
    using ev tn E by (simp add: T G)
qed

text \<open>
  C5 as stated gives the message \<^verbatim>\<open>No records found\<close>.  The events handler's message
  for zero rows is another one.
\<close>

theorem empty_message_counterexample:
  "events_query events_env_empty (today events_env_empty) = Resolves (PgResult (Some []) None)
   \<and> events_source (events_GET events_env_empty) = ''default''
   \<and> events_message (events_GET events_env_empty)
       = ''Using default events - No upcoming events found''
   \<and> events_message (events_GET events_env_empty) \<noteq> ''No records found''"
  by (simp add: events_GET_def events_try_def events_env_empty_def events_env_ok_def unset_def
      truthy_def default_events_response_def)

text \<open>
  C6.  When the events fetch succeeds with rows and the \<^verbatim>\<open>event_images\<close> query resolves
  with an error or with no rows (its data is null or empty), the resolution is not
  aborted: the answer is tagged \<^verbatim>\<open>database\<close>, has one event per row, and every event has
  \<^verbatim>\<open>primary_image\<close> null.
\<close>

theorem image_lookup_failure_degrades:
  assumes "events_store_reachable ev"
    and "events_query ev (today ev) = Resolves r" and "error r = None"
    and "data r = Some rows" and "rows \<noteq> []"
    and "images_query ev (map row_id rows) = Resolves ir"
    and "data ir = None \<or> data ir = Some []"
  shows "events_source (events_GET ev) = ''database''
    \<and> map ev_id (events (events_GET ev)) = map row_id rows
    \<and> (\<forall>e \<in> set (events (events_GET ev)). primary_image e = None)"
proof -
  have m: "imageMap (data ir) = Inr []"
    using assms(7) by (rule imageMap_none)
  have "events_GET ev =
    \<lparr> events = map (transformEvent []) rows,
      events_source = ''database'',
      events_message = ''Loaded '' @ digits (length rows) @ '' upcoming events from database'' \<rparr>"
    using assms(1-6) m by (rule events_query_rows)
  moreover have "primary_image (transformEvent [] row) = None" for row
    by (simp add: transformEvent_def imageMap_get_def)
  moreover have "ev_id (transformEvent m row) = row_id row" for m row
    by (simp add: transformEvent_def)
  ultimately show ?thesis
    by simp
qed

theorem image_lookup_failure_degrades_witness:
  "events_store_reachable events_env_no_images
   \<and> events_source (events_GET events_env_no_images) = ''database''
   \<and> map ev_id (events (events_GET events_env_no_images)) = [''e1'', ''e2'']
   \<and> map primary_image (events (events_GET events_env_no_images)) = [None, None]"
proof -
  let ?r = "PgResult (Some [easter_row, picnic_row]) None"
  let ?ir = "PgResult None (Some no_such_table) :: image_row list pg_result"
  have a: "events_store_reachable events_env_no_images"
    and b: "events_query events_env_no_images (today events_env_no_images) = Resolves ?r"
    and c: "error ?r = None" "data ?r = Some [easter_row, picnic_row]"
      "[easter_row, picnic_row] \<noteq> []"
    and d: "images_query events_env_no_images (map row_id [easter_row, picnic_row]) = Resolves ?ir"
    and e: "data ?ir = None \<or> data ?ir = Some []"
    by (simp_all add: events_store_reachable_def events_env_no_images_def events_env_ok_def
        unset_def truthy_def)
  note claim = image_lookup_failure_degrades [OF a b c d e]
  have ids: "map row_id [easter_row, picnic_row] = [''e1'', ''e2'']"
    by (simp add: easter_row_def picnic_row_def)
  have "map primary_image (events (events_GET events_env_no_images))
      = map (\<lambda>e. None) (events (events_GET events_env_no_images))"
    using claim by (simp only: map_eq_conv) simp
  also have "\<dots> = replicate (length (map ev_id (events (events_GET events_env_no_images)))) None"
    by (simp add: map_replicate_const)
  also have "\<dots> = [None, None]"
    using claim ids by (simp add: numeral_2_eq_2)
  finally show ?thesis
    using claim a ids by simp
qed

lemma events_try_today:
  assumes "events_query ev t1 = events_query ev t2"
  shows "events_try (ev\<lparr> today := t1 \<rparr>) = events_try (ev\<lparr> today := t2 \<rparr>)"
  using assms by (simp add: events_try_def split: option.splits awaited.splits sum.splits)

lemma tenant_key_clock:
  "tenant_key (tn\<lparr> now_created := a, now_updated := b \<rparr>) = tenant_key tn"
  by (simp add: tenant_key_def Let_def)

lemma tenant_try_clock:
  "tenant_try (tn\<lparr> now_created := a, now_updated := b \<rparr>) =
    map_sum id
      (\<lambda>resp. case resp of
         TenantFailure m s \<Rightarrow> TenantFailure m s
       | TenantEnvelope r \<Rightarrow>
           TenantEnvelope (if tenant_source r = ''database'' then r
                           else r\<lparr> tenant_data := defaultSettings a b \<rparr>))
      (tenant_try tn)"
  by (simp add: tenant_try_def tenant_key_clock default_tenant_envelope_def
      split: option.splits awaited.splits list.splits)

lemma tenant_GET_clock:
  "tenant_settings_GET (tn\<lparr> now_created := a, now_updated := b \<rparr>) =
    (case tenant_settings_GET tn of
       TenantFailure m s \<Rightarrow> TenantFailure m s
     | TenantEnvelope r \<Rightarrow>
         TenantEnvelope (if tenant_source r = ''database'' then r
                         else r\<lparr> tenant_data := defaultSettings a b \<rparr>))"
  by (cases "tenant_try tn")
     (simp_all add: tenant_settings_GET_def tenant_try_clock default_tenant_envelope_def)

lemma without_timestamps_clock:
  "without_timestamps (tenant_settings_GET (tn\<lparr> now_created := a, now_updated := b \<rparr>))
    = without_timestamps (tenant_settings_GET tn)"
proof (cases "tenant_settings_GET tn")
  case (TenantFailure m s)
  then show ?thesis by (simp add: tenant_GET_clock)
next
  case (TenantEnvelope r)
  show ?thesis
  proof (cases "tenant_source r = ''database''")
    case True
    with TenantEnvelope show ?thesis by (simp add: tenant_GET_clock)
  next
    case False
    with TenantEnvelope tenant_envelope_shape [of tn r]
    have "tenant_source r = ''default''" by simp
    with TenantEnvelope have "tenant_data r = defaultSettings (now_created tn) (now_updated tn)"
      by (auto simp: tenant_settings_GET_def tenant_try_def default_tenant_envelope_def
          split: sum.splits if_splits option.splits awaited.splits list.splits)
    with TenantEnvelope False show ?thesis
      by (simp add: tenant_GET_clock defaultSettings_def)
  qed
qed

text \<open>
  C7.  Two resolutions against an unchanged store answer identical data, up to the
  time-sensitive inputs: the events answer does not depend on the clock when the query
  gives the same result for both dates, and the tenant-settings answers at two clock
  readings differ at most in the two generated timestamps (and not at all when the
  settings come from the database).  The giving-page answer reads no clock.  The derived
  fields are functions of the row: the gradient of its id alone, the type of its name and
  description alone, whatever images were fetched.
\<close>

theorem resolve_deterministic:
  "(events_query ev t1 = events_query ev t2 \<longrightarrow>
      events_GET (ev\<lparr> today := t1 \<rparr>) = events_GET (ev\<lparr> today := t2 \<rparr>))
   \<and> without_timestamps (tenant_settings_GET (tn\<lparr> now_created := a, now_updated := b \<rparr>))
       = without_timestamps (tenant_settings_GET (tn\<lparr> now_created := c, now_updated := d \<rparr>))
   \<and> (tenant_settings_GET (tn\<lparr> now_created := a, now_updated := b \<rparr>) = TenantEnvelope r
         \<and> tenant_source r = ''database'' \<longrightarrow>
        tenant_settings_GET (tn\<lparr> now_created := c, now_updated := d \<rparr>) = TenantEnvelope r)
   \<and> (row_id row1 = row_id row2 \<longrightarrow>
        gradient (transformEvent m1 row1) = gradient (transformEvent m2 row2))
   \<and> (row_name row1 = row_name row2 \<and> row_description row1 = row_description row2 \<longrightarrow>
        ev_type (transformEvent m1 row1) = ev_type (transformEvent m2 row2))"
proof (intro conjI impI)
  assume "events_query ev t1 = events_query ev t2"
  then have "events_try (ev\<lparr> today := t1 \<rparr>) = events_try (ev\<lparr> today := t2 \<rparr>)"
    by (rule events_try_today)
  then show "events_GET (ev\<lparr> today := t1 \<rparr>) = events_GET (ev\<lparr> today := t2 \<rparr>)"
    by (simp add: events_GET_def)
next
  show "without_timestamps (tenant_settings_GET (tn\<lparr> now_created := a, now_updated := b \<rparr>))
       = without_timestamps (tenant_settings_GET (tn\<lparr> now_created := c, now_updated := d \<rparr>))"
    by (simp only: without_timestamps_clock)
next
  assume h: "tenant_settings_GET (tn\<lparr> now_created := a, now_updated := b \<rparr>) = TenantEnvelope r
         \<and> tenant_source r = ''database''"
  then have "tenant_settings_GET tn = TenantEnvelope r"
    by (cases "tenant_settings_GET tn") (auto simp: tenant_GET_clock split: if_splits)
  with h show "tenant_settings_GET (tn\<lparr> now_created := c, now_updated := d \<rparr>) = TenantEnvelope r"
    by (simp add: tenant_GET_clock)
next
  assume "row_id row1 = row_id row2"
  then show "gradient (transformEvent m1 row1) = gradient (transformEvent m2 row2)"
    by (simp add: transformEvent_def getEventGradient_def)
next
  assume "row_name row1 = row_name row2 \<and> row_description row1 = row_description row2"
  then show "ev_type (transformEvent m1 row1) = ev_type (transformEvent m2 row2)"
    by (simp add: transformEvent_def)
qed

theorem resolve_deterministic_witness:
  "events_GET (events_env_ok\<lparr> today := ''2024-03-01T12:00:00.000Z'' \<rparr>)
     = events_GET (events_env_ok\<lparr> today := ''2024-03-02T08:30:00.000Z'' \<rparr>)
   \<and> without_timestamps (tenant_settings_GET
         (tenant_env_empty\<lparr> now_created := ''2024-03-01T12:00:00.000Z'',
                             now_updated := ''2024-03-01T12:00:00.001Z'' \<rparr>))
     = without_timestamps (tenant_settings_GET
         (tenant_env_empty\<lparr> now_created := ''2024-03-02T08:30:00.000Z'',
                             now_updated := ''2024-03-02T08:30:00.000Z'' \<rparr>))
   \<and> gradient (transformEvent [] easter_row)
     = gradient (transformEvent [(''e1'', Some easter_image)] easter_row)
   \<and> ev_type (transformEvent [] easter_row)
     = ev_type (transformEvent [(''e1'', Some easter_image)] easter_row)"
proof -
  have q: "events_query events_env_ok ''2024-03-01T12:00:00.000Z''
      = events_query events_env_ok ''2024-03-02T08:30:00.000Z''"
    by (simp add: events_env_ok_def)
  show ?thesis
    using resolve_deterministic [where ev = events_env_ok
        and ?t1.0 = "''2024-03-01T12:00:00.000Z''" and ?t2.0 = "''2024-03-02T08:30:00.000Z''"
        and tn = tenant_env_empty
        and a = "''2024-03-01T12:00:00.000Z''" and b = "''2024-03-01T12:00:00.001Z''"
        and c = "''2024-03-02T08:30:00.000Z''" and d = "''2024-03-02T08:30:00.000Z''"
        and ?row1.0 = easter_row and ?row2.0 = easter_row and ?m1.0 = "[]"
        and ?m2.0 = "[(''e1'', Some easter_image)]"] q
    by blast
qed

end
